theory Spec2Isabelle
  imports Complex_Main
begin

section \<open>Values exchanged with the backend\<close>

text \<open>
  The page in \<^verbatim>\<open>frontend/pages/orchestration/trading/app.py\<close> receives decoded JSON
  from the backend client: \<^verbatim>\<open>None\<close>, booleans, integers, floats, strings, lists and
  dicts. A dict is an association list in insertion order; its keys are values, since
  the page itself builds a dict whose keys come out of a response. Floats are read as
  rationals: the page only copies and compares them.
\<close>

datatype pyval =
    PNone
  | PBool bool
  | PInt int
  | PFloat rat
  | PStr string
  | PList "pyval list"
  | PDict "(pyval \<times> pyval) list"

text \<open>
  The exceptions the page can meet. \<open>Failure\<close> is any other \<^verbatim>\<open>Exception\<close>, such as
  one raised by the backend client, with its text. All of them derive from
  \<^verbatim>\<open>Exception\<close>, so every \<^verbatim>\<open>except Exception\<close> of the page catches them.
\<close>

datatype exn = TypeError | KeyError | AttributeError | Failure string

text \<open>\<^verbatim>\<open>isinstance(v, list)\<close> and \<^verbatim>\<open>isinstance(v, dict)\<close>.\<close>

fun is_list :: "pyval \<Rightarrow> bool" where
  "is_list (PList xs) = True"
| "is_list v = False"

fun is_dict :: "pyval \<Rightarrow> bool" where
  "is_dict (PDict d) = True"
| "is_dict v = False"

text \<open>Truth value of an object, as \<^verbatim>\<open>if v\<close> and \<^verbatim>\<open>not v\<close> test it.\<close>

fun truthy :: "pyval \<Rightarrow> bool" where
  "truthy PNone = False"
| "truthy (PBool b) = b"
| "truthy (PInt i) = (i \<noteq> 0)"
| "truthy (PFloat r) = (r \<noteq> 0)"
| "truthy (PStr s) = (s \<noteq> [])"
| "truthy (PList xs) = (xs \<noteq> [])"
| "truthy (PDict d) = (d \<noteq> [])"

text \<open>Lists and dicts cannot be dict keys; every other value can.\<close>

fun hashable :: "pyval \<Rightarrow> bool" where
  "hashable (PList xs) = False"
| "hashable (PDict d) = False"
| "hashable v = True"

text \<open>
  Equality of two keys. Booleans, integers and floats compare by their numeric value
  (\<^verbatim>\<open>True == 1 == 1.0\<close>); \<^verbatim>\<open>None\<close> and strings are equal only to themselves.
\<close>

fun num_of :: "pyval \<Rightarrow> rat option" where
  "num_of (PBool b) = Some (if b then 1 else 0)"
| "num_of (PInt i) = Some (of_int i)"
| "num_of (PFloat r) = Some r"
| "num_of v = None"

definition key_eq :: "pyval \<Rightarrow> pyval \<Rightarrow> bool" where
  "key_eq a b =
     (case (num_of a, num_of b) of
        (Some x, Some y) \<Rightarrow> x = y
      | (None, None) \<Rightarrow> a = b
      | _ \<Rightarrow> False)"

text \<open>Lookup by key: the entry whose key equals the given one, if any.\<close>

fun lookup :: "(pyval \<times> pyval) list \<Rightarrow> pyval \<Rightarrow> pyval option" where
  "lookup [] k = None"
| "lookup ((k', v) # d) k = (if key_eq k' k then Some v else lookup d k)"

text \<open>
  \<^verbatim>\<open>d[k] = v\<close> on a dict: an entry with an equal key keeps its key and its place and
  takes the new value; otherwise the entry is added at the end.
\<close>

fun dict_set :: "pyval \<Rightarrow> pyval \<Rightarrow> (pyval \<times> pyval) list \<Rightarrow> (pyval \<times> pyval) list" where
  "dict_set k v [] = [(k, v)]"
| "dict_set k v ((k', v') # d) =
     (if key_eq k' k then (k', v) # d else (k', v') # dict_set k v d)"

text \<open>\<^verbatim>\<open>d.get(key)\<close> and \<^verbatim>\<open>d.get(key, dflt)\<close> on a dict, for a string key.\<close>

definition dict_get :: "(pyval \<times> pyval) list \<Rightarrow> string \<Rightarrow> pyval \<Rightarrow> pyval" where
  "dict_get d key dflt = (case lookup d (PStr key) of Some v \<Rightarrow> v | None \<Rightarrow> dflt)"

text \<open>\<^verbatim>\<open>obj[key]\<close> for a string key: a dict looks it up, nothing else takes one.\<close>

fun py_getitem :: "pyval \<Rightarrow> string \<Rightarrow> exn + pyval" where
  "py_getitem (PDict d) key =
     (case lookup d (PStr key) of Some v \<Rightarrow> Inr v | None \<Rightarrow> Inl KeyError)"
| "py_getitem v key = Inl TypeError"

text \<open>\<^verbatim>\<open>key in obj\<close> for a string key.\<close>

fun starts_with :: "string \<Rightarrow> string \<Rightarrow> bool" where
  "starts_with t [] = True"
| "starts_with [] (c # s) = False"
| "starts_with (c' # t) (c # s) = (c' = c \<and> starts_with t s)"

fun has_substring :: "string \<Rightarrow> string \<Rightarrow> bool" where
  "has_substring [] s = (s = [])"
| "has_substring (c # t) s = (starts_with (c # t) s \<or> has_substring t s)"

fun py_contains :: "pyval \<Rightarrow> string \<Rightarrow> exn + bool" where
  "py_contains (PDict d) key = Inr (lookup d (PStr key) \<noteq> None)"
| "py_contains (PList xs) key = Inr (PStr key \<in> set xs)"
| "py_contains (PStr s) key = Inr (has_substring s key)"
| "py_contains v key = Inl TypeError"

text \<open>\<^verbatim>\<open>for x in obj\<close>: the elements of a list, the keys of a dict, the characters of a string.\<close>

fun py_iter :: "pyval \<Rightarrow> exn + pyval list" where
  "py_iter (PList xs) = Inr xs"
| "py_iter (PDict d) = Inr (map fst d)"
| "py_iter (PStr s) = Inr (map (\<lambda>c. PStr [c]) s)"
| "py_iter v = Inl TypeError"

text \<open>\<^verbatim>\<open>obj.items()\<close>.\<close>

fun py_items :: "pyval \<Rightarrow> exn + (pyval \<times> pyval) list" where
  "py_items (PDict d) = Inr d"
| "py_items v = Inl AttributeError"

section \<open>The backend, the clock and the page's state\<close>

text \<open>The calls the page makes on \<^verbatim>\<open>backend_api_client\<close>, with their arguments.\<close>

datatype request =
    ListAccounts
  | ListCredentials pyval
  | GetAvailableCandlesFeed
  | GetPositions int
  | GetActiveOrders int
  | GetOrders int
  | GetCandles string string string int
  | GetPrices string "string list"
  | PlaceOrder "(string \<times> pyval) list"
  | CancelOrder pyval pyval pyval
  | GetState "string list"

text \<open>
  The world outside the page is a state of type \<open>'b\<close>: a backend call returns a value
  or raises, and a reading of the clock returns a time; both may change that state.
\<close>

record 'b env =
  respond :: "'b \<Rightarrow> request \<Rightarrow> (exn + pyval) \<times> 'b"
  now :: "'b \<Rightarrow> rat \<times> 'b"

text \<open>A formatted string keeps its literal text and the objects formatted into it.\<close>

datatype part = Lit string | Val pyval | Exc exn | Num rat | Count nat

text \<open>What the page shows, in order. \<open>'df\<close> is the type of data frames.\<close>

datatype 'df st_out =
    StError "part list"
  | StWarning "part list"
  | StSuccess "part list"
  | StInfo "part list"
  | StSubheader "part list"
  | StMetric "part list" "part list"
  | StSpinner "part list"
  | StButton "part list"
  | StDataframe 'df
  | StDataEditor 'df "pyval list"

text \<open>
  The fields of \<^verbatim>\<open>st.session_state\<close> the functions below use. Account and connector
  names are \<^verbatim>\<open>None\<close> or strings; the selected market always holds both of its keys.
\<close>

record session_state =
  selected_account :: "string option"
  selected_connector :: "string option"
  selected_market_connector :: string
  selected_market_trading_pair :: string
  last_fetch_time :: "rat option"
  last_fetch_timestamp :: "rat option"

text \<open>
  The state a function of the page runs in: the outside world, the backend calls made
  so far with their outcomes, what has been shown so far, the session state, and the
  objects held by reference (the record lists handed to the rendering functions).
\<close>

record ('b, 'df) world =
  ext :: 'b
  calls :: "(request \<times> (exn + pyval)) list"
  out :: "'df st_out list"
  session :: session_state
  objects :: "nat \<Rightarrow> pyval"

definition call :: "'b env \<Rightarrow> request \<Rightarrow> ('b, 'df) world \<Rightarrow> (exn + pyval) \<times> ('b, 'df) world" where
  "call E req w =
     (case respond E (ext w) req of
        (r, b) \<Rightarrow> (r, w\<lparr>ext := b, calls := calls w @ [(req, r)]\<rparr>))"

definition clock :: "'b env \<Rightarrow> ('b, 'df) world \<Rightarrow> rat \<times> ('b, 'df) world" where
  "clock E w = (case now E (ext w) of (t, b) \<Rightarrow> (t, w\<lparr>ext := b\<rparr>))"

definition st_show :: "'df st_out \<Rightarrow> ('b, 'df) world \<Rightarrow> ('b, 'df) world" where
  "st_show x w = w\<lparr>out := out w @ [x]\<rparr>"

text \<open>The backend calls a run has added to the log.\<close>

definition new_calls ::
  "('b, 'df) world \<Rightarrow> ('b, 'df) world \<Rightarrow> (request \<times> (exn + pyval)) list" where
  "new_calls w w' = drop (length (calls w)) (calls w')"

text \<open>\<^verbatim>\<open>None\<close> or a string, as a value and as a condition.\<close>

fun opt_str :: "string option \<Rightarrow> pyval" where
  "opt_str None = PNone"
| "opt_str (Some s) = PStr s"

section \<open>Accounts and candle feeds\<close>

text \<open>
  The loop of \<^verbatim>\<open>get_accounts_and_credentials\<close>: for each account, fetch its
  credentials, then store them under the account.
\<close>

fun credentials_loop ::
  "'b env \<Rightarrow> pyval list \<Rightarrow> (pyval \<times> pyval) list \<Rightarrow> ('b, 'df) world \<Rightarrow>
   (exn + (pyval \<times> pyval) list) \<times> ('b, 'df) world" where
  "credentials_loop E [] credentials_list w = (Inr credentials_list, w)"
| "credentials_loop E (account # rest) credentials_list w =
     (case call E (ListCredentials account) w of
        (Inl e, w') \<Rightarrow> (Inl e, w')
      | (Inr credentials, w') \<Rightarrow>
          (if hashable account
           then credentials_loop E rest (dict_set account credentials credentials_list) w'
           else (Inl TypeError, w')))"

definition get_accounts_and_credentials ::
  "'b env \<Rightarrow> ('b, 'df) world \<Rightarrow> (pyval \<times> pyval) \<times> ('b, 'df) world" where
  "get_accounts_and_credentials E w =
     (case call E ListAccounts w of
        (Inl e, w') \<Rightarrow>
          ((PList [], PDict []), st_show (StError [Lit ''Failed to fetch accounts: '', Exc e]) w')
      | (Inr accounts_list, w') \<Rightarrow>
          (case py_iter accounts_list of
             Inl e \<Rightarrow>
               ((PList [], PDict []),
                st_show (StError [Lit ''Failed to fetch accounts: '', Exc e]) w')
           | Inr accounts \<Rightarrow>
               (case credentials_loop E accounts [] w' of
                  (Inl e, w'') \<Rightarrow>
                    ((PList [], PDict []),
                     st_show (StError [Lit ''Failed to fetch accounts: '', Exc e]) w'')
                | (Inr credentials_list, w'') \<Rightarrow>
                    ((accounts_list, PDict credentials_list), w''))))"

definition get_candles_connectors :: "'b env \<Rightarrow> ('b, 'df) world \<Rightarrow> pyval \<times> ('b, 'df) world" where
  "get_candles_connectors E w =
     (case call E GetAvailableCandlesFeed w of
        (Inr r, w') \<Rightarrow> (r, w')
      | (Inl e, w') \<Rightarrow>
          (PList [],
           st_show (StWarning [Lit ''Could not fetch candles feed connectors: '', Exc e]) w'))"

section \<open>Fetching positions, orders and order history\<close>

text \<open>
  \<^verbatim>\<open>get_positions\<close>, \<^verbatim>\<open>get_active_orders\<close> and \<^verbatim>\<open>get_order_history\<close>: one backend
  call each, the response normalised in place, every exception caught.
\<close>

definition get_positions :: "'b env \<Rightarrow> ('b, 'df) world \<Rightarrow> pyval \<times> ('b, 'df) world" where
  "get_positions E w =
     (case call E (GetPositions 100) w of
        (Inr response, w') \<Rightarrow>
          (case response of
             PList xs \<Rightarrow> (response, w')
           | PDict d \<Rightarrow>
               (if dict_get d ''status'' PNone = PStr ''success''
                then (dict_get d ''data'' (PList []), w')
                else (PList [], w'))
           | _ \<Rightarrow> (PList [], w'))
      | (Inl e, w') \<Rightarrow>
          (PList [], st_show (StError [Lit ''Failed to fetch positions: '', Exc e]) w'))"

definition get_active_orders :: "'b env \<Rightarrow> ('b, 'df) world \<Rightarrow> pyval \<times> ('b, 'df) world" where
  "get_active_orders E w =
     (case call E (GetActiveOrders 100) w of
        (Inr response, w') \<Rightarrow>
          (case response of
             PList xs \<Rightarrow> (response, w')
           | PDict d \<Rightarrow>
               (if dict_get d ''status'' PNone = PStr ''success''
                then (dict_get d ''data'' (PList []), w')
                else (PList [], w'))
           | _ \<Rightarrow> (PList [], w'))
      | (Inl e, w') \<Rightarrow>
          (PList [], st_show (StError [Lit ''Failed to fetch active orders: '', Exc e]) w'))"

text \<open>
  \<^verbatim>\<open>get_order_history\<close> calls \<^verbatim>\<open>trading.get_orders(limit=50)\<close>; its handler is
  \<^verbatim>\<open>except Exception: return []\<close>, with no message.
\<close>

definition get_order_history :: "'b env \<Rightarrow> ('b, 'df) world \<Rightarrow> pyval \<times> ('b, 'df) world" where
  "get_order_history E w =
     (case call E (GetOrders 50) w of
        (Inr response, w') \<Rightarrow>
          (case response of
             PList xs \<Rightarrow> (response, w')
           | PDict d \<Rightarrow>
               (if dict_get d ''status'' PNone = PStr ''success''
                then (dict_get d ''data'' (PList []), w')
                else (PList [], w'))
           | _ \<Rightarrow> (PList [], w'))
      | (Inl e, w') \<Rightarrow> (PList [], w'))"

section \<open>Market data\<close>

text \<open>
  The dict comprehension over a list of prices: an item that is not a dict is skipped;
  a dict gives the entry \<^verbatim>\<open>item.get("trading_pair", "unknown"): item.get("price", 0)\<close>.
  Storing under a key that cannot be hashed raises \<^verbatim>\<open>TypeError\<close>.
\<close>

fun prices_from_list ::
  "pyval list \<Rightarrow> (pyval \<times> pyval) list \<Rightarrow> exn + (pyval \<times> pyval) list" where
  "prices_from_list [] prices = Inr prices"
| "prices_from_list (item # rest) prices =
     (case item of
        PDict d \<Rightarrow>
          (if hashable (dict_get d ''trading_pair'' (PStr ''unknown''))
           then prices_from_list rest
                  (dict_set (dict_get d ''trading_pair'' (PStr ''unknown''))
                     (dict_get d ''price'' (PInt 0)) prices)
           else Inl TypeError)
      | _ \<Rightarrow> prices_from_list rest prices)"

text \<open>
  \<^verbatim>\<open>candles_connector if candles_connector else connector\<close>: \<^verbatim>\<open>None\<close> and the empty
  string both fall back to the trading connector.
\<close>

definition candles_conn :: "string \<Rightarrow> string option \<Rightarrow> string" where
  "candles_conn connector candles_connector =
     (case candles_connector of
        Some c \<Rightarrow> if c \<noteq> [] then c else connector
      | None \<Rightarrow> connector)"

text \<open>
  The first inner \<^verbatim>\<open>try\<close> of \<^verbatim>\<open>get_market_data\<close>: \<^verbatim>\<open>candles\<close> starts as the empty
  list; a failure leaves it so and shows a warning.
\<close>

definition fetch_candles ::
  "'b env \<Rightarrow> string \<Rightarrow> string \<Rightarrow> string \<Rightarrow> int \<Rightarrow> string option \<Rightarrow> ('b, 'df) world \<Rightarrow>
   pyval \<times> ('b, 'df) world" where
  "fetch_candles E connector trading_pair interval max_records candles_connector w =
     (case call E (GetCandles (candles_conn connector candles_connector)
                     trading_pair interval max_records) w of
        (Inr candles_response, w') \<Rightarrow>
          (case candles_response of
             PList xs \<Rightarrow> (candles_response, w')
           | PDict d \<Rightarrow>
               (if dict_get d ''status'' PNone = PStr ''success''
                then (dict_get d ''data'' (PList []), w')
                else (PList [], w'))
           | _ \<Rightarrow> (PList [], w'))
      | (Inl e, w') \<Rightarrow>
          (PList [], st_show (StWarning [Lit ''Could not fetch candles: '', Exc e]) w'))"

text \<open>
  The second inner \<^verbatim>\<open>try\<close>: \<^verbatim>\<open>prices\<close> starts as the empty dict. A dict response is
  read as a status envelope, else as a \<^verbatim>\<open>prices\<close> envelope, else as the prices
  themselves; a list is converted; anything else leaves \<^verbatim>\<open>prices\<close> empty.
\<close>

definition fetch_prices ::
  "'b env \<Rightarrow> string \<Rightarrow> string \<Rightarrow> ('b, 'df) world \<Rightarrow> pyval \<times> ('b, 'df) world" where
  "fetch_prices E connector trading_pair w =
     (case call E (GetPrices connector [trading_pair]) w of
        (Inr price_response, w') \<Rightarrow>
          (case price_response of
             PDict d \<Rightarrow>
               (if lookup d (PStr ''status'') \<noteq> None \<and> dict_get d ''status'' PNone = PStr ''success''
                then (dict_get d ''data'' (PDict []), w')
                else if lookup d (PStr ''prices'') \<noteq> None
                then (dict_get d ''prices'' (PDict []), w')
                else (price_response, w'))
           | PList items \<Rightarrow>
               (case prices_from_list items [] of
                  Inr prices \<Rightarrow> (PDict prices, w')
                | Inl e \<Rightarrow>
                    (PDict [], st_show (StWarning [Lit ''Could not fetch prices: '', Exc e]) w'))
           | _ \<Rightarrow> (PDict [], w'))
      | (Inl e, w') \<Rightarrow>
          (PDict [], st_show (StWarning [Lit ''Could not fetch prices: '', Exc e]) w'))"

text \<open>
  \<^verbatim>\<open>get_market_data\<close>: the clock, the candles, the prices, then the fetch time in
  milliseconds and the time of the fetch into the session state. The outer handler
  (\<^verbatim>\<open>return [], {}\<close>) guards only the clock readings, the warnings and the session
  writes, which do not raise here: both backend calls sit in their own \<^verbatim>\<open>try\<close>.
\<close>

definition get_market_data ::
  "'b env \<Rightarrow> string \<Rightarrow> string \<Rightarrow> string \<Rightarrow> int \<Rightarrow> string option \<Rightarrow> ('b, 'df) world \<Rightarrow>
   (pyval \<times> pyval) \<times> ('b, 'df) world" where
  "get_market_data E connector trading_pair interval max_records candles_connector w =
     (case clock E w of (start_time, w1) \<Rightarrow>
      case fetch_candles E connector trading_pair interval max_records candles_connector w1 of
        (candles, w2) \<Rightarrow>
      case fetch_prices E connector trading_pair w2 of (prices, w3) \<Rightarrow>
      case clock E w3 of (t, w4) \<Rightarrow>
      case clock E (w4\<lparr>session := (session w4)\<lparr>last_fetch_time := Some ((t - start_time) * 1000)\<rparr>\<rparr>) of
        (t', w5) \<Rightarrow>
      ((candles, prices), w5\<lparr>session := (session w5)\<lparr>last_fetch_timestamp := Some t'\<rparr>\<rparr>))"

section \<open>Placing and cancelling orders\<close>

text \<open>
  \<^verbatim>\<open>place_order\<close> passes the entries of \<^verbatim>\<open>order_data\<close> as keyword arguments. A
  response that is not a dict has no \<^verbatim>\<open>get\<close>: the \<^verbatim>\<open>AttributeError\<close> is caught like
  any failure of the call.
\<close>

definition place_order ::
  "'b env \<Rightarrow> (string \<times> pyval) list \<Rightarrow> ('b, 'df) world \<Rightarrow> bool \<times> ('b, 'df) world" where
  "place_order E order_data w =
     (case call E (PlaceOrder order_data) w of
        (Inr response, w') \<Rightarrow>
          (case response of
             PDict d \<Rightarrow>
               (if dict_get d ''status'' PNone = PStr ''success''
                then (True,
                      st_show (StSuccess [Lit ''Order placed successfully! Order ID: '',
                                          Val (dict_get d ''order_id'' PNone)]) w')
                else (False,
                      st_show (StError [Lit ''Failed to place order: '',
                                        Val (dict_get d ''message'' (PStr ''Unknown error''))]) w'))
           | _ \<Rightarrow>
               (False, st_show (StError [Lit ''Failed to place order: '', Exc AttributeError]) w'))
      | (Inl e, w') \<Rightarrow>
          (False, st_show (StError [Lit ''Failed to place order: '', Exc e]) w'))"

definition cancel_order ::
  "'b env \<Rightarrow> pyval \<Rightarrow> pyval \<Rightarrow> pyval \<Rightarrow> ('b, 'df) world \<Rightarrow> bool \<times> ('b, 'df) world" where
  "cancel_order E account_name connector_name order_id w =
     (case call E (CancelOrder account_name connector_name order_id) w of
        (Inr response, w') \<Rightarrow>
          (case response of
             PDict d \<Rightarrow>
               (if dict_get d ''status'' PNone = PStr ''success''
                then (True,
                      st_show (StSuccess [Lit ''Order '', Val order_id,
                                          Lit '' cancelled successfully!'']) w')
                else (False,
                      st_show (StError [Lit ''Failed to cancel order: '',
                                        Val (dict_get d ''message'' (PStr ''Unknown error''))]) w'))
           | _ \<Rightarrow>
               (False, st_show (StError [Lit ''Failed to cancel order: '', Exc AttributeError]) w'))
      | (Inl e, w') \<Rightarrow>
          (False, st_show (StError [Lit ''Failed to cancel order: '', Exc e]) w'))"

section \<open>Balances\<close>

text \<open>
  The dict appended for one token of one exchange. The five subscripts
  \<^verbatim>\<open>token_info["token"]\<close>, \<^verbatim>\<open>["units"]\<close>, \<^verbatim>\<open>["available_units"]\<close>, \<^verbatim>\<open>["price"]\<close>
  and \<^verbatim>\<open>["value"]\<close> are evaluated in this order; the first that fails raises.
\<close>

definition balance_record :: "pyval \<Rightarrow> pyval \<Rightarrow> exn + pyval" where
  "balance_record exchange token_info =
     (case py_getitem token_info ''token'' of Inl e \<Rightarrow> Inl e | Inr token \<Rightarrow>
      case py_getitem token_info ''units'' of Inl e \<Rightarrow> Inl e | Inr units \<Rightarrow>
      case py_getitem token_info ''available_units'' of Inl e \<Rightarrow> Inl e | Inr available_units \<Rightarrow>
      case py_getitem token_info ''price'' of Inl e \<Rightarrow> Inl e | Inr price \<Rightarrow>
      case py_getitem token_info ''value'' of Inl e \<Rightarrow> Inl e | Inr val \<Rightarrow>
        Inr (PDict [(PStr ''exchange'', exchange), (PStr ''token'', token),
                    (PStr ''total'', units), (PStr ''available'', available_units),
                    (PStr ''price'', price), (PStr ''value'', val)]))"

text \<open>The inner loop, \<^verbatim>\<open>for token_info in tokens\<close>, and the outer one over the exchanges.\<close>

fun tokens_loop :: "pyval \<Rightarrow> pyval list \<Rightarrow> pyval list \<Rightarrow> exn + pyval list" where
  "tokens_loop exchange [] balances = Inr balances"
| "tokens_loop exchange (token_info # rest) balances =
     (case balance_record exchange token_info of
        Inl e \<Rightarrow> Inl e
      | Inr b \<Rightarrow> tokens_loop exchange rest (balances @ [b]))"

fun exchanges_loop :: "(pyval \<times> pyval) list \<Rightarrow> pyval list \<Rightarrow> exn + pyval list" where
  "exchanges_loop [] balances = Inr balances"
| "exchanges_loop ((exchange, tokens) # rest) balances =
     (case py_iter tokens of
        Inl e \<Rightarrow> Inl e
      | Inr token_infos \<Rightarrow>
          (case tokens_loop exchange token_infos balances of
             Inl e \<Rightarrow> Inl e
           | Inr balances' \<Rightarrow> exchanges_loop rest balances'))"

text \<open>Everything after the backend call, up to \<^verbatim>\<open>return balances\<close>.\<close>

definition extract_balances :: "pyval \<Rightarrow> string \<Rightarrow> exn + pyval list" where
  "extract_balances portfolio_state account =
     (case py_contains portfolio_state account of
        Inl e \<Rightarrow> Inl e
      | Inr False \<Rightarrow> Inr []
      | Inr True \<Rightarrow>
          (case py_getitem portfolio_state account of
             Inl e \<Rightarrow> Inl e
           | Inr exchanges \<Rightarrow>
               (case py_items exchanges of
                  Inl e \<Rightarrow> Inl e
                | Inr items \<Rightarrow> exchanges_loop items [])))"

definition get_balances :: "'b env \<Rightarrow> ('b, 'df) world \<Rightarrow> pyval \<times> ('b, 'df) world" where
  "get_balances E w =
     (case selected_account (session w) of
        None \<Rightarrow> (PList [], w)
      | Some account \<Rightarrow>
          (if account = [] then (PList [], w)
           else
             (case call E (GetState [account]) w of
                (Inl e, w') \<Rightarrow>
                  (PList [], st_show (StError [Lit ''Failed to fetch balances: '', Exc e]) w')
              | (Inr portfolio_state, w') \<Rightarrow>
                  (case extract_balances portfolio_state account of
                     Inl e \<Rightarrow>
                       (PList [],
                        st_show (StError [Lit ''Failed to fetch balances: '', Exc e]) w')
                   | Inr balances \<Rightarrow> (PList balances, w')))))"

section \<open>Rendering the tables\<close>

text \<open>
  The data frame library, as far as the page uses it: building a frame from records
  (which may raise), \<^verbatim>\<open>df.empty\<close>, \<^verbatim>\<open>df.columns\<close>, the rows selected by a boolean
  column (\<^verbatim>\<open>df[df[col]]\<close>), \<^verbatim>\<open>len(df)\<close>, the rows of \<^verbatim>\<open>df.iterrows()\<close> as label and
  value pairs, and the sum of a column. None of them writes to its argument.
\<close>

record 'df pandas =
  DataFrame :: "pyval \<Rightarrow> exn + 'df"
  df_empty :: "'df \<Rightarrow> bool"
  df_columns :: "'df \<Rightarrow> pyval list"
  df_mask :: "'df \<Rightarrow> string \<Rightarrow> exn + 'df"
  df_len :: "'df \<Rightarrow> nat"
  df_rows :: "'df \<Rightarrow> (pyval \<times> pyval) list list"
  df_sum :: "'df \<Rightarrow> string \<Rightarrow> exn + rat"

text \<open>
  What the user does with the orders table: the frame the editor returns, and whether
  the cancel button is pressed.
\<close>

record 'df user =
  data_editor :: "'df \<Rightarrow> 'df"
  cancel_clicked :: bool

text \<open>
  How a rendering function ends: it returns, it asks for a rerun of the script
  (\<^verbatim>\<open>st.rerun()\<close>), or an exception leaves it (it has no handler of its own).
\<close>

datatype flow = Done | Rerun | Raised exn

text \<open>The symbols in front of the headings, as their UTF-8 bytes.\<close>

definition sym_target :: string where
  "sym_target = [CHR 0xF0, CHR 0x9F, CHR 0x8E, CHR 0xAF]"

definition sym_clipboard :: string where
  "sym_clipboard = [CHR 0xF0, CHR 0x9F, CHR 0x93, CHR 0x8B]"

definition sym_scroll :: string where
  "sym_scroll = [CHR 0xF0, CHR 0x9F, CHR 0x93, CHR 0x9C]"

definition sym_money :: string where
  "sym_money = [CHR 0xF0, CHR 0x9F, CHR 0x92, CHR 0xB0]"

definition sym_cross :: string where
  "sym_cross = [CHR 0xE2, CHR 0x9D, CHR 0x8C]"

text \<open>
  The record list is passed by reference: \<open>a\<close> is its address among the objects. The
  column formats given to \<^verbatim>\<open>st.dataframe\<close> are presentation only and left out.
\<close>

definition render_positions_table ::
  "'df pandas \<Rightarrow> nat \<Rightarrow> ('b, 'df) world \<Rightarrow> flow \<times> ('b, 'df) world" where
  "render_positions_table P a w =
     (let positions_data = objects w a in
      if \<not> truthy positions_data
      then (Done, st_show (StInfo [Lit ''No open positions found.'']) w)
      else
        (case DataFrame P positions_data of
           Inl e \<Rightarrow> (Raised e, w)
         | Inr df \<Rightarrow>
             (if df_empty P df
              then (Done, st_show (StInfo [Lit ''No open positions found.'']) w)
              else (Done,
                    st_show (StDataframe df)
                      (st_show (StSubheader [Lit (sym_target @ '' Open Positions'')]) w)))))"

definition render_order_history_table ::
  "'df pandas \<Rightarrow> nat \<Rightarrow> ('b, 'df) world \<Rightarrow> flow \<times> ('b, 'df) world" where
  "render_order_history_table P a w =
     (let order_history = objects w a in
      if \<not> truthy order_history
      then (Done, st_show (StInfo [Lit ''No order history found.'']) w)
      else
        (case DataFrame P order_history of
           Inl e \<Rightarrow> (Raised e, w)
         | Inr df \<Rightarrow>
             (if df_empty P df
              then (Done, st_show (StInfo [Lit ''No order history found.'']) w)
              else (Done,
                    st_show (StDataframe df)
                      (st_show (StSubheader [Lit (sym_scroll @ '' Order History'')]) w)))))"

text \<open>
  The loop over the selected rows: one \<^verbatim>\<open>cancel_order\<close> per row, with the row's
  account, connector and client order id, each the empty string when the row has none.
\<close>

fun cancel_selected ::
  "'b env \<Rightarrow> (pyval \<times> pyval) list list \<Rightarrow> ('b, 'df) world \<Rightarrow> ('b, 'df) world" where
  "cancel_selected E [] w = w"
| "cancel_selected E (order # rest) w =
     cancel_selected E rest
       (snd (cancel_order E (dict_get order ''account_name'' (PStr []))
                            (dict_get order ''connector_name'' (PStr []))
                            (dict_get order ''client_order_id'' (PStr [])) w))"

definition render_orders_table ::
  "'b env \<Rightarrow> 'df pandas \<Rightarrow> 'df user \<Rightarrow> nat \<Rightarrow> ('b, 'df) world \<Rightarrow> flow \<times> ('b, 'df) world" where
  "render_orders_table E P U a w =
     (let orders_data = objects w a in
      if \<not> truthy orders_data
      then (Done, st_show (StInfo [Lit ''No active orders found.'']) w)
      else
        (case DataFrame P orders_data of
           Inl e \<Rightarrow> (Raised e, w)
         | Inr df \<Rightarrow>
             (if df_empty P df
              then (Done, st_show (StInfo [Lit ''No active orders found.'']) w)
              else
                (let w1 = st_show (StSubheader [Lit (sym_clipboard @ '' Active Orders'')]) w;
                     w2 = st_show (StDataEditor df
                                     (filter (\<lambda>col. col \<noteq> PStr ''cancel'') (df_columns P df))) w1;
                     edited_df = data_editor U df
                 in if PStr ''cancel'' \<in> set (df_columns P edited_df)
                    then
                      (case df_mask P edited_df ''cancel'' of
                         Inl e \<Rightarrow> (Raised e, w2)
                       | Inr selected_orders \<Rightarrow>
                           (if df_empty P selected_orders then (Done, w2)
                            else
                              (let w3 = st_show (StButton [Lit (sym_cross @ '' Cancel Selected (''),
                                                           Count (df_len P selected_orders),
                                                           Lit '') Orders'']) w2
                               in if cancel_clicked U
                                  then (Rerun,
                                        cancel_selected E (df_rows P selected_orders)
                                          (st_show (StSpinner [Lit ''Cancelling orders...'']) w3))
                                  else (Done, w3))))
                    else (Done, w2)))))"

definition render_balances_table ::
  "'b env \<Rightarrow> 'df pandas \<Rightarrow> ('b, 'df) world \<Rightarrow> flow \<times> ('b, 'df) world" where
  "render_balances_table E P w =
     (case get_balances E w of (balances, w0) \<Rightarrow>
      if \<not> truthy balances
      then (Done, st_show (StInfo [Lit ''No balances found.'']) w0)
      else
        (case DataFrame P balances of
           Inl e \<Rightarrow> (Raised e, w0)
         | Inr df \<Rightarrow>
             (if df_empty P df
              then (Done, st_show (StInfo [Lit ''No balances found.'']) w0)
              else
                (let w1 = st_show (StSubheader [Lit (sym_money @ '' Account Balances - ''),
                                                Val (opt_str (selected_account (session w0)))]) w0
                 in case df_sum P df ''value'' of
                      Inl e \<Rightarrow> (Raised e, w1)
                    | Inr total_value \<Rightarrow>
                        (Done,
                         st_show (StDataframe df)
                           (st_show (StMetric [Lit ''Total Portfolio Value'']
                                              [Lit ''$'', Num total_value]) w1))))))"

section \<open>The trade execution section\<close>

text \<open>
  The body of the \<^verbatim>\<open>Place Order\<close> button: the amount is tested, the order is built
  from the session state and the widgets, the price is added for a limit order whose
  price is not zero, and \<^verbatim>\<open>place_order\<close> is called.
\<close>

definition place_order_button ::
  "'b env \<Rightarrow> string \<Rightarrow> string \<Rightarrow> rat \<Rightarrow> rat option \<Rightarrow> ('b, 'df) world \<Rightarrow> ('b, 'df) world" where
  "place_order_button E order_type side amount price w =
     (if amount > 0
      then
        (let order_data =
               [(''account_name'', opt_str (selected_account (session w))),
                (''connector_name'', opt_str (selected_connector (session w))),
                (''trading_pair'', PStr (selected_market_trading_pair (session w))),
                (''order_type'', PStr order_type),
                (''trade_type'', PStr side),
                (''amount'', PFloat amount)];
             order_data' =
               (case price of
                  Some p \<Rightarrow>
                    if order_type = ''limit'' \<and> p \<noteq> 0
                    then order_data @ [(''price'', PFloat p)] else order_data
                | None \<Rightarrow> order_data)
         in snd (place_order E order_data' w))
      else st_show (StError [Lit ''Please enter a valid amount'']) w)"

text \<open>
  The section around it: shown only when an account and a connector are selected; the
  price widget exists only for a limit order, otherwise \<^verbatim>\<open>price\<close> is \<^verbatim>\<open>None\<close>.
\<close>

definition execute_trade_section ::
  "'b env \<Rightarrow> string \<Rightarrow> string \<Rightarrow> rat \<Rightarrow> rat \<Rightarrow> bool \<Rightarrow> ('b, 'df) world \<Rightarrow> ('b, 'df) world" where
  "execute_trade_section E order_type side amount price_input clicked w =
     (if truthy (opt_str (selected_account (session w))) \<and>
         truthy (opt_str (selected_connector (session w)))
      then
        (let price = (if order_type = ''limit'' then Some price_input else None);
             w1 = (if clicked then place_order_button E order_type side amount price w else w)
         in st_show (StInfo [Lit (sym_target @ '' Trading on ''),
                             Val (opt_str (selected_connector (session w1))),
                             Lit '' with '',
                             Val (PStr (selected_market_trading_pair (session w1)))]) w1)
      else st_show (StWarning [Lit ''Please select an account and exchange to execute trades'']) w)"

section \<open>Sample environments\<close>

text \<open>
  A backend that answers every call the same way, with a clock that stands still, and a
  fresh page: nothing requested, nothing shown, nothing selected.
\<close>

definition fixed_env :: "(exn + pyval) \<Rightarrow> unit env" where
  "fixed_env r = \<lparr>respond = (\<lambda>b req. (r, b)), now = (\<lambda>b. (0, b))\<rparr>"

definition fresh_session :: session_state where
  "fresh_session =
     \<lparr>selected_account = None, selected_connector = None,
      selected_market_connector = ''binance_perpetual'',
      selected_market_trading_pair = ''BTC-USDT'',
      last_fetch_time = None, last_fetch_timestamp = None\<rparr>"

definition fresh_world :: "(unit, 'df) world" where
  "fresh_world =
     \<lparr>ext = (), calls = [], out = [], session = fresh_session, objects = (\<lambda>a. PNone)\<rparr>"

text \<open>A success envelope around a one-element list.\<close>

definition ok_envelope :: pyval where
  "ok_envelope = PDict [(PStr ''status'', PStr ''success''), (PStr ''data'', PList [PInt 1])]"

text \<open>An envelope that reports a failure.\<close>

definition refused_envelope :: pyval where
  "refused_envelope = PDict [(PStr ''status'', PStr ''error''), (PStr ''message'', PStr ''rejected'')]"

text \<open>
  A bare dict of prices, a success envelope whose \<^verbatim>\<open>data\<close> is \<^verbatim>\<open>null\<close>, and a backend
  whose candles call fails while everything else answers with the bare prices.
\<close>

definition bare_prices :: pyval where
  "bare_prices = PDict [(PStr ''BTC-USDT'', PInt 50000)]"

definition null_data_envelope :: pyval where
  "null_data_envelope = PDict [(PStr ''status'', PStr ''success''), (PStr ''data'', PNone)]"

definition candles_down_env :: "unit env" where
  "candles_down_env =
     \<lparr>respond = (\<lambda>b req. case req of
                     GetCandles c t i m \<Rightarrow> (Inl (Failure ''timeout''), b)
                   | _ \<Rightarrow> (Inr bare_prices, b)),
      now = (\<lambda>b. (0, b))\<rparr>"

section \<open>The prices taken from a response\<close>

text \<open>
  The four shapes of a price response: a list, converted entry by entry (nothing when
  the conversion raises); a dict whose \<^verbatim>\<open>status\<close> is \<^verbatim>\<open>"success"\<close>, giving its
  \<^verbatim>\<open>data\<close> field or the empty dict; a dict with a \<^verbatim>\<open>prices\<close> field, giving that
  field; any other dict, taken as the prices themselves. Everything else gives the
  empty dict.
\<close>

definition prices_of_response :: "pyval \<Rightarrow> pyval" where
  "prices_of_response r =
     (case r of
        PList items \<Rightarrow>
          (case prices_from_list items [] of Inr prices \<Rightarrow> PDict prices | Inl e \<Rightarrow> PDict [])
      | PDict d \<Rightarrow>
          (if lookup d (PStr ''status'') = Some (PStr ''success'')
           then (case lookup d (PStr ''data'') of Some v \<Rightarrow> v | None \<Rightarrow> PDict [])
           else (case lookup d (PStr ''prices'') of Some v \<Rightarrow> v | None \<Rightarrow> r))
      | _ \<Rightarrow> PDict [])"

text \<open>
  The entry a dict item of a price list contributes, and the items whose key can be
  stored: \<^verbatim>\<open>"unknown"\<close> stands for a missing trading pair, \<^verbatim>\<open>0\<close> for a missing price.
\<close>

fun entry_key :: "pyval \<Rightarrow> pyval" where
  "entry_key (PDict d) =
     (case lookup d (PStr ''trading_pair'') of Some k \<Rightarrow> k | None \<Rightarrow> PStr ''unknown'')"
| "entry_key v = PNone"

fun entry_value :: "pyval \<Rightarrow> pyval" where
  "entry_value (PDict d) =
     (case lookup d (PStr ''price'') of Some p \<Rightarrow> p | None \<Rightarrow> PInt 0)"
| "entry_value v = PNone"

definition storable :: "pyval \<Rightarrow> bool" where
  "storable item = (\<not> is_dict item \<or> hashable (entry_key item))"

definition store_entry :: "pyval \<Rightarrow> (pyval \<times> pyval) list \<Rightarrow> (pyval \<times> pyval) list" where
  "store_entry item prices = dict_set (entry_key item) (entry_value item) prices"

section \<open>Balances, in the specification's words\<close>

text \<open>
  A token record of the backend has the five fields the page reads. The balance record
  made from it copies them, next to the exchange it is listed under.
\<close>

fun field :: "pyval \<Rightarrow> string \<Rightarrow> pyval" where
  "field (PDict d) key = (case lookup d (PStr key) of Some v \<Rightarrow> v | None \<Rightarrow> PNone)"
| "field v key = PNone"

fun is_token_info :: "pyval \<Rightarrow> bool" where
  "is_token_info (PDict d) =
     list_all (\<lambda>key. lookup d (PStr key) \<noteq> None)
       [''token'', ''units'', ''available_units'', ''price'', ''value'']"
| "is_token_info v = False"

definition spec_balance :: "pyval \<Rightarrow> pyval \<Rightarrow> pyval" where
  "spec_balance exchange token_info =
     PDict [(PStr ''exchange'', exchange),
            (PStr ''token'', field token_info ''token''),
            (PStr ''total'', field token_info ''units''),
            (PStr ''available'', field token_info ''available_units''),
            (PStr ''price'', field token_info ''price''),
            (PStr ''value'', field token_info ''value'')]"

text \<open>
  An exchange entry of a portfolio state is well formed when it holds a list of token
  records; the balances of the account are one record per exchange and token, in order.
\<close>

fun exchange_tokens :: "pyval \<Rightarrow> pyval list" where
  "exchange_tokens (PList ts) = ts"
| "exchange_tokens v = []"

definition wf_exchange :: "pyval \<times> pyval \<Rightarrow> bool" where
  "wf_exchange x = (is_list (snd x) \<and> list_all is_token_info (exchange_tokens (snd x)))"

definition spec_balances :: "(pyval \<times> pyval) list \<Rightarrow> pyval list" where
  "spec_balances exchanges =
     concat (map (\<lambda>x. map (spec_balance (fst x)) (exchange_tokens (snd x))) exchanges)"

text \<open>A portfolio state with one account, two exchanges and three tokens.\<close>

definition token_btc :: pyval where
  "token_btc = PDict [(PStr ''token'', PStr ''BTC''), (PStr ''units'', PFloat (1 / 2)),
                      (PStr ''available_units'', PFloat (1 / 4)), (PStr ''price'', PInt 50000),
                      (PStr ''value'', PInt 25000)]"

definition token_usdt :: pyval where
  "token_usdt = PDict [(PStr ''token'', PStr ''USDT''), (PStr ''units'', PInt 100),
                       (PStr ''available_units'', PInt 100), (PStr ''price'', PInt 1),
                       (PStr ''value'', PInt 100)]"

definition sample_portfolio :: "(pyval \<times> pyval) list" where
  "sample_portfolio =
     [(PStr ''master'',
       PDict [(PStr ''binance'', PList [token_btc, token_usdt]),
              (PStr ''kucoin'', PList [token_usdt])])]"

definition master_world :: "(unit, 'df) world" where
  "master_world = fresh_world\<lparr>session := fresh_session\<lparr>selected_account := Some ''master''\<rparr>\<rparr>"

section \<open>Kinds of backend calls\<close>

fun is_cancel :: "request \<Rightarrow> bool" where
  "is_cancel (CancelOrder account_name connector_name order_id) = True"
| "is_cancel req = False"

fun is_get_state :: "request \<Rightarrow> bool" where
  "is_get_state (GetState account_names) = True"
| "is_get_state req = False"

text \<open>The cancel request made for a selected row.\<close>

definition cancel_request :: "(pyval \<times> pyval) list \<Rightarrow> request" where
  "cancel_request order =
     CancelOrder (dict_get order ''account_name'' (PStr []))
                 (dict_get order ''connector_name'' (PStr []))
                 (dict_get order ''client_order_id'' (PStr []))"

text \<open>
  A data frame library over lists of records: the frame is the list itself, a row is a
  record, every column is listed, and the boolean column selects every row. The user
  leaves the table as it is and presses the button.
\<close>

definition list_frames :: "pyval pandas" where
  "list_frames =
     \<lparr>DataFrame = (\<lambda>v. Inr v),
      df_empty = (\<lambda>v. \<not> truthy v),
      df_columns = (\<lambda>v. [PStr ''client_order_id'', PStr ''cancel'']),
      df_mask = (\<lambda>v col. Inr v),
      df_len = (\<lambda>v. length (exchange_tokens v)),
      df_rows = (\<lambda>v. map (\<lambda>r. case r of PDict d \<Rightarrow> d | _ \<Rightarrow> []) (exchange_tokens v)),
      df_sum = (\<lambda>v col. Inr 0)\<rparr>"

definition pressing_user :: "pyval user" where
  "pressing_user = \<lparr>data_editor = (\<lambda>df. df), cancel_clicked = True\<rparr>"

definition one_order :: pyval where
  "one_order = PList [PDict [(PStr ''client_order_id'', PStr ''x-1''), (PStr ''cancel'', PBool True)]]"

definition orders_world :: "(unit, pyval) world" where
  "orders_world = fresh_world\<lparr>objects := (\<lambda>a. if a = 0 then one_order else PNone)\<rparr>"

text \<open>A page with an account and a connector selected.\<close>

definition trading_world :: "(unit, 'df) world" where
  "trading_world =
     fresh_world\<lparr>session := fresh_session\<lparr>selected_account := Some ''master'',
                                           selected_connector := Some ''binance''\<rparr>\<rparr>"

section \<open>The normal form of a list response, in the specification's words\<close>

text \<open>
  A list is returned as it is; a dict whose \<^verbatim>\<open>status\<close> field is \<^verbatim>\<open>"success"\<close> gives
  its \<^verbatim>\<open>data\<close> field, the empty list when it has none; anything else gives the empty
  list.
\<close>

definition spec_normalized :: "pyval \<Rightarrow> pyval" where
  "spec_normalized r =
     (if is_list r then r
      else if is_dict r \<and> py_getitem r ''status'' = Inr (PStr ''success'')
        then (case py_getitem r ''data'' of Inr v \<Rightarrow> v | Inl e \<Rightarrow> PList [])
      else PList [])"

section \<open>Properties\<close>

lemma call_Inr:
  "respond E (ext w) req = (r, b) \<Longrightarrow>
   call E req w = (r, w\<lparr>ext := b, calls := calls w @ [(req, r)]\<rparr>)"
  by (simp add: call_def)

lemma dict_get_status:
  "(dict_get d key PNone = PStr s) = (lookup d (PStr key) = Some (PStr s))"
  by (simp add: dict_get_def split: option.splits)

lemma normalized_cases:
  "(case r of
      PList xs \<Rightarrow> r
    | PDict d \<Rightarrow>
        (if dict_get d ''status'' PNone = PStr ''success''
         then dict_get d ''data'' (PList []) else PList [])
    | _ \<Rightarrow> PList []) = spec_normalized r"
  by (cases r) (auto simp: spec_normalized_def dict_get_status dict_get_def split: option.splits)

text \<open>
  C1. Whatever value \<open>r\<close> the backend returns, \<^verbatim>\<open>get_positions\<close>,
  \<^verbatim>\<open>get_active_orders\<close> and \<^verbatim>\<open>get_order_history\<close> each return the same normal form
  of it: \<open>r\<close> itself when it is a list; the \<^verbatim>\<open>data\<close> field, or the empty list when
  there is none, when it is a dict whose \<^verbatim>\<open>status\<close> is \<^verbatim>\<open>"success"\<close>; the empty list
  otherwise.
\<close>

theorem list_fetchers_normalize:
  "(respond E (ext w) (GetPositions 100) = (Inr r, b) \<longrightarrow>
      fst (get_positions E w) = spec_normalized r) \<and>
   (respond E (ext w) (GetActiveOrders 100) = (Inr r, b) \<longrightarrow>
      fst (get_active_orders E w) = spec_normalized r) \<and>
   (respond E (ext w) (GetOrders 50) = (Inr r, b) \<longrightarrow>
      fst (get_order_history E w) = spec_normalized r)"
proof (intro conjI impI)
  assume "respond E (ext w) (GetPositions 100) = (Inr r, b)"
  then show "fst (get_positions E w) = spec_normalized r"
    unfolding get_positions_def normalized_cases [symmetric]
    by (simp add: call_Inr split: pyval.splits)
next
  assume "respond E (ext w) (GetActiveOrders 100) = (Inr r, b)"
  then show "fst (get_active_orders E w) = spec_normalized r"
    unfolding get_active_orders_def normalized_cases [symmetric]
    by (simp add: call_Inr split: pyval.splits)
next
  assume "respond E (ext w) (GetOrders 50) = (Inr r, b)"
  then show "fst (get_order_history E w) = spec_normalized r"
    unfolding get_order_history_def normalized_cases [symmetric]
    by (simp add: call_Inr split: pyval.splits)
qed

theorem list_fetchers_normalize_witness:
  "fst (get_positions (fixed_env (Inr ok_envelope)) (fresh_world :: (unit, unit) world)) = PList [PInt 1] \<and>
   fst (get_active_orders (fixed_env (Inr ok_envelope)) (fresh_world :: (unit, unit) world)) = PList [PInt 1] \<and>
   fst (get_order_history (fixed_env (Inr ok_envelope)) (fresh_world :: (unit, unit) world)) = PList [PInt 1]"
  using list_fetchers_normalize [of "fixed_env (Inr ok_envelope)" "fresh_world :: (unit, unit) world" ok_envelope "()"]
  by (simp add: fixed_env_def fresh_world_def spec_normalized_def ok_envelope_def key_eq_def)

text \<open>
  C8. \<^verbatim>\<open>get_order_history\<close> never shows anything, whatever the backend does, and
  returns the empty list when its backend call raises. In the same situation
  \<^verbatim>\<open>get_positions\<close> and \<^verbatim>\<open>get_active_orders\<close> return the empty list too, but show
  an error message.
\<close>

theorem order_history_silent:
  "out (snd (get_order_history E w)) = out w \<and>
   (respond E (ext w) (GetOrders 50) = (Inl e, b) \<longrightarrow>
      fst (get_order_history E w) = PList []) \<and>
   (respond E (ext w) (GetPositions 100) = (Inl e, b) \<longrightarrow>
      fst (get_positions E w) = PList [] \<and>
      out (snd (get_positions E w)) = out w @ [StError [Lit ''Failed to fetch positions: '', Exc e]]) \<and>
   (respond E (ext w) (GetActiveOrders 100) = (Inl e, b) \<longrightarrow>
      fst (get_active_orders E w) = PList [] \<and>
      out (snd (get_active_orders E w)) = out w @ [StError [Lit ''Failed to fetch active orders: '', Exc e]])"
proof (intro conjI impI)
  show "out (snd (get_order_history E w)) = out w"
    by (simp add: get_order_history_def call_def split: prod.splits sum.splits pyval.splits)
next
  assume "respond E (ext w) (GetOrders 50) = (Inl e, b)"
  then show "fst (get_order_history E w) = PList []"
    by (simp add: get_order_history_def call_def)
next
  assume a: "respond E (ext w) (GetPositions 100) = (Inl e, b)"
  show "fst (get_positions E w) = PList []"
    using a by (simp add: get_positions_def call_def)
  show "out (snd (get_positions E w)) = out w @ [StError [Lit ''Failed to fetch positions: '', Exc e]]"
    using a by (simp add: get_positions_def call_def st_show_def)
next
  assume a: "respond E (ext w) (GetActiveOrders 100) = (Inl e, b)"
  show "fst (get_active_orders E w) = PList []"
    using a by (simp add: get_active_orders_def call_def)
  show "out (snd (get_active_orders E w)) = out w @ [StError [Lit ''Failed to fetch active orders: '', Exc e]]"
    using a by (simp add: get_active_orders_def call_def st_show_def)
qed

theorem order_history_silent_witness:
  "out (snd (get_order_history (fixed_env (Inl (Failure ''no such method''))) (fresh_world :: (unit, unit) world))) = [] \<and>
   fst (get_order_history (fixed_env (Inl (Failure ''no such method''))) (fresh_world :: (unit, unit) world)) = PList [] \<and>
   out (snd (get_positions (fixed_env (Inl (Failure ''no such method''))) (fresh_world :: (unit, unit) world)))
     = [StError [Lit ''Failed to fetch positions: '', Exc (Failure ''no such method'')]] \<and>
   out (snd (get_active_orders (fixed_env (Inl (Failure ''no such method''))) (fresh_world :: (unit, unit) world)))
     = [StError [Lit ''Failed to fetch active orders: '', Exc (Failure ''no such method'')]]"
  using order_history_silent [of "fixed_env (Inl (Failure ''no such method''))" "fresh_world :: (unit, unit) world" "Failure ''no such method''" "()"]
  by (simp add: fixed_env_def fresh_world_def)

subsection \<open>What a step does to each part of the state\<close>

lemma call_simps:
  "fst (call E req w) = fst (respond E (ext w) req)"
  "calls (snd (call E req w)) = calls w @ [(req, fst (respond E (ext w) req))]"
  "out (snd (call E req w)) = out w"
  "objects (snd (call E req w)) = objects w"
  "session (snd (call E req w)) = session w"
  by (simp_all add: call_def split_def)

lemma st_show_simps:
  "calls (st_show x w) = calls w"
  "out (st_show x w) = out w @ [x]"
  "objects (st_show x w) = objects w"
  "session (st_show x w) = session w"
  "ext (st_show x w) = ext w"
  by (simp_all add: st_show_def)

lemma clock_simps:
  "calls (snd (clock E w)) = calls w"
  "out (snd (clock E w)) = out w"
  "objects (snd (clock E w)) = objects w"
  "session (snd (clock E w)) = session w"
  by (simp_all add: clock_def split_def)

lemma new_calls_append: "calls w' = calls w @ cs \<Longrightarrow> new_calls w w' = cs"
  by (simp add: new_calls_def)

text \<open>
  C4. \<^verbatim>\<open>place_order\<close> and \<^verbatim>\<open>cancel_order\<close> return a boolean in every case. It is
  \<^verbatim>\<open>True\<close> exactly when the backend call returned a response whose \<^verbatim>\<open>status\<close> field
  is \<^verbatim>\<open>"success"\<close>, and \<^verbatim>\<open>False\<close> when the call raised, when the response has no
  such field or is not a dict, and when the status is anything else.
\<close>

theorem order_actions_status:
  "(respond E (ext w) (PlaceOrder order_data) = (r, b) \<longrightarrow>
      fst (place_order E order_data w) =
        (case r of Inr response \<Rightarrow> py_getitem response ''status'' = Inr (PStr ''success'')
                 | Inl e \<Rightarrow> False)) \<and>
   (respond E (ext w) (CancelOrder account_name connector_name order_id) = (r, b) \<longrightarrow>
      fst (cancel_order E account_name connector_name order_id w) =
        (case r of Inr response \<Rightarrow> py_getitem response ''status'' = Inr (PStr ''success'')
                 | Inl e \<Rightarrow> False))"
proof (intro conjI impI)
  assume "respond E (ext w) (PlaceOrder order_data) = (r, b)"
  then show "fst (place_order E order_data w) =
        (case r of Inr response \<Rightarrow> py_getitem response ''status'' = Inr (PStr ''success'')
                 | Inl e \<Rightarrow> False)"
    by (cases r)
       (auto simp: place_order_def call_def dict_get_status split: pyval.splits option.splits)
next
  assume "respond E (ext w) (CancelOrder account_name connector_name order_id) = (r, b)"
  then show "fst (cancel_order E account_name connector_name order_id w) =
        (case r of Inr response \<Rightarrow> py_getitem response ''status'' = Inr (PStr ''success'')
                 | Inl e \<Rightarrow> False)"
    by (cases r)
       (auto simp: cancel_order_def call_def dict_get_status split: pyval.splits option.splits)
qed

theorem order_actions_status_witness:
  "fst (place_order (fixed_env (Inr ok_envelope)) [(''amount'', PInt 1)] (fresh_world :: (unit, unit) world)) \<and>
   \<not> fst (place_order (fixed_env (Inr refused_envelope)) [(''amount'', PInt 1)] (fresh_world :: (unit, unit) world)) \<and>
   fst (cancel_order (fixed_env (Inr ok_envelope)) (PStr ''a'') (PStr ''c'') (PStr ''o'') (fresh_world :: (unit, unit) world)) \<and>
   \<not> fst (cancel_order (fixed_env (Inl (Failure ''down''))) (PStr ''a'') (PStr ''c'') (PStr ''o'') (fresh_world :: (unit, unit) world))"
  using order_actions_status [of "fixed_env (Inr ok_envelope)" "fresh_world :: (unit, unit) world" "[(''amount'', PInt 1)]" "Inr ok_envelope" "()" "PStr ''a''" "PStr ''c''" "PStr ''o''"]
    order_actions_status [of "fixed_env (Inr refused_envelope)" "fresh_world :: (unit, unit) world" "[(''amount'', PInt 1)]" "Inr refused_envelope" "()" "PStr ''a''" "PStr ''c''" "PStr ''o''"]
    order_actions_status [of "fixed_env (Inl (Failure ''down''))" "fresh_world :: (unit, unit) world" "[(''amount'', PInt 1)]" "Inl (Failure ''down'')" "()" "PStr ''a''" "PStr ''c''" "PStr ''o''"]
  by (simp add: fixed_env_def fresh_world_def ok_envelope_def refused_envelope_def key_eq_def)

subsection \<open>Market data\<close>

lemma fetch_candles_result:
  "fst (fetch_candles E connector trading_pair interval max_records candles_connector w) =
     (case fst (respond E (ext w)
                  (GetCandles (candles_conn connector candles_connector)
                     trading_pair interval max_records)) of
        Inl e \<Rightarrow> PList []
      | Inr r \<Rightarrow> spec_normalized r)"
  unfolding fetch_candles_def normalized_cases [symmetric]
  by (simp add: call_def split_def split: sum.splits pyval.splits)

lemma fetch_candles_calls:
  "calls (snd (fetch_candles E connector trading_pair interval max_records candles_connector w)) =
     calls w @
     [(GetCandles (candles_conn connector candles_connector) trading_pair interval max_records,
       fst (respond E (ext w)
              (GetCandles (candles_conn connector candles_connector)
                 trading_pair interval max_records)))]"
  unfolding fetch_candles_def
  by (simp add: call_def split_def st_show_def split: sum.splits pyval.splits)

lemma fetch_prices_result:
  "fst (fetch_prices E connector trading_pair w) =
     (case fst (respond E (ext w) (GetPrices connector [trading_pair])) of
        Inl e \<Rightarrow> PDict []
      | Inr r \<Rightarrow> prices_of_response r)"
  unfolding fetch_prices_def prices_of_response_def
  by (auto simp: call_def split_def dict_get_status dict_get_def
           split: sum.splits pyval.splits option.splits)

lemma fetch_prices_calls:
  "calls (snd (fetch_prices E connector trading_pair w)) =
     calls w @
     [(GetPrices connector [trading_pair],
       fst (respond E (ext w) (GetPrices connector [trading_pair])))]"
  unfolding fetch_prices_def
  by (simp add: call_def split_def st_show_def split: sum.splits pyval.splits)

text \<open>
  Every run of \<^verbatim>\<open>get_market_data\<close> makes the two calls, in this order, and each
  component of the result depends on the outcome of its own call only.
\<close>

lemma market_data_trace:
  "\<exists>rc rp.
     new_calls w (snd (get_market_data E connector trading_pair interval max_records
                         candles_connector w)) =
       [(GetCandles (candles_conn connector candles_connector) trading_pair interval max_records, rc),
        (GetPrices connector [trading_pair], rp)] \<and>
     fst (fst (get_market_data E connector trading_pair interval max_records
                 candles_connector w)) =
       (case rc of Inl e \<Rightarrow> PList [] | Inr r \<Rightarrow> spec_normalized r) \<and>
     snd (fst (get_market_data E connector trading_pair interval max_records
                 candles_connector w)) =
       (case rp of Inl e \<Rightarrow> PDict [] | Inr r \<Rightarrow> prices_of_response r)"
proof -
  let ?w1 = "snd (clock E w)"
  let ?fc = "fetch_candles E connector trading_pair interval max_records candles_connector ?w1"
  let ?fp = "fetch_prices E connector trading_pair (snd ?fc)"
  let ?R = "get_market_data E connector trading_pair interval max_records candles_connector w"
  have res: "fst ?R = (fst ?fc, fst ?fp)"
    by (simp add: get_market_data_def split_def)
  have "calls (snd ?R) = calls (snd ?fp)"
    by (simp add: get_market_data_def split_def clock_simps)
  then have "calls (snd ?R) = calls w @
     [(GetCandles (candles_conn connector candles_connector) trading_pair interval max_records,
       fst (respond E (ext ?w1)
              (GetCandles (candles_conn connector candles_connector)
                 trading_pair interval max_records))),
      (GetPrices connector [trading_pair],
       fst (respond E (ext (snd ?fc)) (GetPrices connector [trading_pair])))]"
    by (simp add: fetch_prices_calls fetch_candles_calls clock_simps)
  then have "new_calls w (snd ?R) =
     [(GetCandles (candles_conn connector candles_connector) trading_pair interval max_records,
       fst (respond E (ext ?w1)
              (GetCandles (candles_conn connector candles_connector)
                 trading_pair interval max_records))),
      (GetPrices connector [trading_pair],
       fst (respond E (ext (snd ?fc)) (GetPrices connector [trading_pair])))]"
    by (rule new_calls_append)
  with res show ?thesis
    by (simp add: fetch_candles_result fetch_prices_result)
qed

text \<open>
  C2, as the code has it. Whatever value \<open>r\<close> the price call returns, the prices
  returned by \<^verbatim>\<open>get_market_data\<close> are \<open>prices_of_response r\<close>: there are four shapes
  that contribute, the fourth being a dict that is neither a success envelope nor has a
  \<^verbatim>\<open>prices\<close> field, which is returned as the prices themselves.
\<close>

theorem prices_four_shapes:
  "(GetPrices connector [trading_pair], Inr r)
     \<in> set (new_calls w (snd (get_market_data E connector trading_pair interval max_records
                               candles_connector w))) \<longrightarrow>
   snd (fst (get_market_data E connector trading_pair interval max_records candles_connector w)) =
     prices_of_response r"
proof
  let ?R = "get_market_data E connector trading_pair interval max_records candles_connector w"
  assume a: "(GetPrices connector [trading_pair], Inr r) \<in> set (new_calls w (snd ?R))"
  obtain rc rp where
    t: "new_calls w (snd ?R) =
          [(GetCandles (candles_conn connector candles_connector) trading_pair interval max_records, rc),
           (GetPrices connector [trading_pair], rp)]" and
    p: "snd (fst ?R) = (case rp of Inl e \<Rightarrow> PDict [] | Inr r \<Rightarrow> prices_of_response r)"
    using market_data_trace [of w E connector trading_pair interval max_records candles_connector]
    by blast
  from a t have "rp = Inr r" by simp
  with p show "snd (fst ?R) = prices_of_response r" by simp
qed

theorem prices_four_shapes_witness:
  "snd (fst (get_market_data (fixed_env (Inr bare_prices)) ''binance'' ''BTC-USDT'' ''1m'' 100 None
               (fresh_world :: (unit, unit) world))) = bare_prices"
  using prices_four_shapes [of "''binance''" "''BTC-USDT''" bare_prices
          "fresh_world :: (unit, unit) world" "fixed_env (Inr bare_prices)" "''1m''" 100 None]
  by (simp add: get_market_data_def fetch_candles_def fetch_prices_def call_def clock_def
        new_calls_def fixed_env_def fresh_world_def bare_prices_def prices_of_response_def
        key_eq_def dict_get_def st_show_def candles_conn_def)

text \<open>
  C2, as stated, fails: a response that is not a list and has neither a \<^verbatim>\<open>status\<close>
  nor a \<^verbatim>\<open>prices\<close> field still gives the returned prices.
\<close>

theorem prices_three_shapes_counterexample:
  "\<not> is_list bare_prices \<and>
   py_contains bare_prices ''status'' = Inr False \<and>
   py_contains bare_prices ''prices'' = Inr False \<and>
   snd (fst (get_market_data (fixed_env (Inr bare_prices)) ''binance'' ''BTC-USDT'' ''1m'' 100 None
               (fresh_world :: (unit, unit) world))) = PDict [(PStr ''BTC-USDT'', PInt 50000)]"
  by (simp add: get_market_data_def fetch_candles_def fetch_prices_def call_def clock_def
        fixed_env_def fresh_world_def bare_prices_def key_eq_def dict_get_def)

text \<open>
  C9, as the code has it. \<^verbatim>\<open>get_market_data\<close> always returns a pair and always makes
  both calls. The first component is the empty list when the candles call raised and the
  normal form of its response otherwise; the second is the empty dict when the price call
  raised and the prices of its response otherwise; neither depends on the outcome of the
  other call. The first component is a list, and the second a dict, except when it is
  the \<^verbatim>\<open>data\<close> (or \<^verbatim>\<open>prices\<close>) field of an envelope, which is returned whatever it
  holds.
\<close>

theorem market_data_independent:
  "\<exists>rc rp.
     new_calls w (snd (get_market_data E connector trading_pair interval max_records
                         candles_connector w)) =
       [(GetCandles (candles_conn connector candles_connector) trading_pair interval max_records, rc),
        (GetPrices connector [trading_pair], rp)] \<and>
     fst (fst (get_market_data E connector trading_pair interval max_records
                 candles_connector w)) =
       (case rc of Inl e \<Rightarrow> PList [] | Inr r \<Rightarrow> spec_normalized r) \<and>
     snd (fst (get_market_data E connector trading_pair interval max_records
                 candles_connector w)) =
       (case rp of Inl e \<Rightarrow> PDict [] | Inr r \<Rightarrow> prices_of_response r) \<and>
     (is_list (fst (fst (get_market_data E connector trading_pair interval max_records
                           candles_connector w))) \<or>
      (\<exists>d. rc = Inr (PDict d) \<and> lookup d (PStr ''status'') = Some (PStr ''success'') \<and>
           lookup d (PStr ''data'') =
             Some (fst (fst (get_market_data E connector trading_pair interval max_records
                               candles_connector w))))) \<and>
     (is_dict (snd (fst (get_market_data E connector trading_pair interval max_records
                           candles_connector w))) \<or>
      (\<exists>d. rp = Inr (PDict d) \<and>
           (lookup d (PStr ''data'') =
              Some (snd (fst (get_market_data E connector trading_pair interval max_records
                                candles_connector w))) \<or>
            lookup d (PStr ''prices'') =
              Some (snd (fst (get_market_data E connector trading_pair interval max_records
                                candles_connector w))))))"
proof -
  let ?R = "get_market_data E connector trading_pair interval max_records candles_connector w"
  obtain rc rp where
    t: "new_calls w (snd ?R) =
          [(GetCandles (candles_conn connector candles_connector) trading_pair interval max_records, rc),
           (GetPrices connector [trading_pair], rp)]" and
    c: "fst (fst ?R) = (case rc of Inl e \<Rightarrow> PList [] | Inr r \<Rightarrow> spec_normalized r)" and
    p: "snd (fst ?R) = (case rp of Inl e \<Rightarrow> PDict [] | Inr r \<Rightarrow> prices_of_response r)"
    using market_data_trace [of w E connector trading_pair interval max_records candles_connector]
    by blast
  have cl: "is_list (fst (fst ?R)) \<or>
      (\<exists>d. rc = Inr (PDict d) \<and> lookup d (PStr ''status'') = Some (PStr ''success'') \<and>
           lookup d (PStr ''data'') = Some (fst (fst ?R)))"
  proof (cases rc)
    case (Inl e)
    with c show ?thesis by simp
  next
    case (Inr r)
    with c show ?thesis
      by (cases r) (auto simp: spec_normalized_def split: option.splits)
  qed
  have pd: "is_dict (snd (fst ?R)) \<or>
      (\<exists>d. rp = Inr (PDict d) \<and>
           (lookup d (PStr ''data'') = Some (snd (fst ?R)) \<or>
            lookup d (PStr ''prices'') = Some (snd (fst ?R))))"
  proof (cases rp)
    case (Inl e)
    with p show ?thesis by simp
  next
    case (Inr r)
    with p show ?thesis
      by (cases r) (auto simp: prices_of_response_def split: option.splits sum.splits)
  qed
  from t c p cl pd show ?thesis by blast
qed

theorem market_data_independent_witness:
  "fst (get_market_data candles_down_env ''binance'' ''BTC-USDT'' ''1m'' 100 None
          (fresh_world :: (unit, unit) world)) = (PList [], bare_prices)"
  using market_data_independent [of "fresh_world :: (unit, unit) world" candles_down_env
          "''binance''" "''BTC-USDT''" "''1m''" 100 None]
  by (auto simp: new_calls_def candles_down_env_def fresh_world_def candles_conn_def
        prices_of_response_def bare_prices_def key_eq_def prod_eq_iff
        get_market_data_def fetch_candles_def fetch_prices_def call_def clock_def st_show_def)

text \<open>
  C9, as stated, fails: a success envelope whose \<^verbatim>\<open>data\<close> is \<^verbatim>\<open>null\<close> makes the first
  component \<^verbatim>\<open>None\<close>, which is not a list.
\<close>

theorem candles_not_a_list_counterexample:
  "\<not> is_list (fst (fst (get_market_data (fixed_env (Inr null_data_envelope))
                           ''binance'' ''BTC-USDT'' ''1m'' 100 None
                           (fresh_world :: (unit, unit) world)))) \<and>
   \<not> is_dict (snd (fst (get_market_data (fixed_env (Inr null_data_envelope))
                           ''binance'' ''BTC-USDT'' ''1m'' 100 None
                           (fresh_world :: (unit, unit) world))))"
  by (simp add: get_market_data_def fetch_candles_def fetch_prices_def call_def clock_def
        fixed_env_def fresh_world_def null_data_envelope_def key_eq_def dict_get_def)

text \<open>
  The conversion of a price list, in closed form: it succeeds exactly when every dict
  item has a key that can be stored, and then it is the entries of the dict items,
  stored in order.
\<close>

lemma storable_dict:
  "storable (PDict d) = hashable (dict_get d ''trading_pair'' (PStr ''unknown''))"
  by (simp add: storable_def dict_get_def)

lemma store_entry_dict:
  "store_entry (PDict d) prices =
     dict_set (dict_get d ''trading_pair'' (PStr ''unknown'')) (dict_get d ''price'' (PInt 0)) prices"
  by (simp add: store_entry_def dict_get_def)

lemma prices_from_list_closed:
  "prices_from_list items prices =
     (if list_all storable items
      then Inr (fold store_entry (filter is_dict items) prices)
      else Inl TypeError)"
proof (induction items arbitrary: prices)
  case Nil
  show ?case by simp
next
  case (Cons item items)
  show ?case
  proof (cases item)
    case (PDict d)
    then show ?thesis
      using Cons.IH [of "dict_set (dict_get d ''trading_pair'' (PStr ''unknown''))
                           (dict_get d ''price'' (PInt 0)) prices"]
      by (simp add: storable_dict store_entry_dict)
  qed (use Cons.IH [of prices] in \<open>simp_all add: storable_def\<close>)
qed

text \<open>
  C10, as the code has it. In the conversion of a price list an item that is not a dict
  is skipped, a dict without \<^verbatim>\<open>trading_pair\<close> is stored under \<^verbatim>\<open>"unknown"\<close> and a dict
  without \<^verbatim>\<open>price\<close> with the value \<^verbatim>\<open>0\<close>; the conversion returns when every dict item
  has a trading pair that can be a key, and raises \<^verbatim>\<open>TypeError\<close> when one has a list or
  a dict as its trading pair. \<^verbatim>\<open>get_market_data\<close> catches that error: the prices are
  then empty.
\<close>

theorem price_list_conversion:
  "prices_from_list items prices =
     (if list_all storable items
      then Inr (fold store_entry (filter is_dict items) prices)
      else Inl TypeError) \<and>
   (lookup d (PStr ''trading_pair'') = None \<longrightarrow> entry_key (PDict d) = PStr ''unknown'') \<and>
   (lookup d (PStr ''price'') = None \<longrightarrow> entry_value (PDict d) = PInt 0) \<and>
   (storable item = (\<forall>d k. item = PDict d \<and> lookup d (PStr ''trading_pair'') = Some k
                            \<longrightarrow> \<not> is_list k \<and> \<not> is_dict k)) \<and>
   (respond E (ext w) (GetPrices connector [trading_pair]) = (Inr (PList items), b) \<longrightarrow>
      fst (fetch_prices E connector trading_pair w) =
        (if list_all storable items
         then PDict (fold store_entry (filter is_dict items) [])
         else PDict []))"
proof (intro conjI impI)
  assume "respond E (ext w) (GetPrices connector [trading_pair]) = (Inr (PList items), b)"
  then show "fst (fetch_prices E connector trading_pair w) =
        (if list_all storable items
         then PDict (fold store_entry (filter is_dict items) [])
         else PDict [])"
    by (simp add: fetch_prices_result prices_of_response_def prices_from_list_closed)
next
  show "prices_from_list items prices =
     (if list_all storable items
      then Inr (fold store_entry (filter is_dict items) prices)
      else Inl TypeError)"
    by (rule prices_from_list_closed)
next
  assume "lookup d (PStr ''trading_pair'') = None"
  then show "entry_key (PDict d) = PStr ''unknown''" by simp
next
  assume "lookup d (PStr ''price'') = None"
  then show "entry_value (PDict d) = PInt 0" by simp
next
  show "storable item = (\<forall>d k. item = PDict d \<and> lookup d (PStr ''trading_pair'') = Some k
                            \<longrightarrow> \<not> is_list k \<and> \<not> is_dict k)"
  proof (cases item)
    case (PDict d)
    show ?thesis
    proof (cases "lookup d (PStr ''trading_pair'')")
      case None
      with PDict show ?thesis by (simp add: storable_def)
    next
      case (Some k)
      with PDict show ?thesis by (cases k) (simp_all add: storable_def)
    qed
  qed (simp_all add: storable_def)
qed

theorem price_list_conversion_witness:
  "prices_from_list [PInt 7, PDict [(PStr ''price'', PInt 3)],
                     PDict [(PStr ''trading_pair'', PStr ''ETH-USDT'')]] []
     = Inr [(PStr ''unknown'', PInt 3), (PStr ''ETH-USDT'', PInt 0)] \<and>
   entry_key (PDict []) = PStr ''unknown'' \<and> entry_value (PDict []) = PInt 0 \<and>
   storable (PDict [(PStr ''trading_pair'', PStr ''ETH-USDT'')]) \<and>
   fst (fetch_prices
          (fixed_env (Inr (PList [PInt 7, PDict [(PStr ''price'', PInt 3)],
                                  PDict [(PStr ''trading_pair'', PStr ''ETH-USDT'')]])))
          ''binance'' ''BTC-USDT'' (fresh_world :: (unit, unit) world))
     = PDict [(PStr ''unknown'', PInt 3), (PStr ''ETH-USDT'', PInt 0)]"
  using price_list_conversion
    [where items = "[PInt 7, PDict [(PStr ''price'', PInt 3)],
                     PDict [(PStr ''trading_pair'', PStr ''ETH-USDT'')]]"
       and prices = "[]" and d = "[]"
       and item = "PDict [(PStr ''trading_pair'', PStr ''ETH-USDT'')]"
       and E = "fixed_env (Inr (PList [PInt 7, PDict [(PStr ''price'', PInt 3)],
                                       PDict [(PStr ''trading_pair'', PStr ''ETH-USDT'')]]))"
       and w = "fresh_world :: (unit, unit) world"
       and connector = "''binance''" and trading_pair = "''BTC-USDT''" and b = "()"]
  by (simp add: storable_def store_entry_def key_eq_def fixed_env_def fresh_world_def)

text \<open>
  C10, as stated, fails: the conversion raises on a list whose item has a list as its
  trading pair.
\<close>

theorem price_list_conversion_counterexample:
  "prices_from_list [PDict [(PStr ''trading_pair'', PList [PStr ''BTC'', PStr ''USDT'']),
                            (PStr ''price'', PInt 50000)]] [] = Inl TypeError"
  by (simp add: dict_get_def key_eq_def)

subsection \<open>Failing backend calls\<close>

text \<open>
  The loop over the accounts only adds calls to the log, and a call that raised ends it
  with that exception.
\<close>

lemma credentials_loop_trace:
  "\<exists>cs. calls (snd (credentials_loop E accounts credentials_list w)) = calls w @ cs \<and>
        ((\<exists>req e. (req, Inl e) \<in> set cs) \<longrightarrow>
         (\<exists>e'. fst (credentials_loop E accounts credentials_list w) = Inl e'))"
proof (induction accounts arbitrary: credentials_list w)
  case Nil
  show ?case by simp
next
  case (Cons account rest)
  let ?req = "ListCredentials account"
  let ?r = "fst (respond E (ext w) ?req)"
  let ?w' = "snd (call E ?req w)"
  have log: "calls ?w' = calls w @ [(?req, ?r)]"
    by (simp add: call_simps)
  show ?case
  proof (cases ?r)
    case (Inl e)
    then have "credentials_loop E (account # rest) credentials_list w = (Inl e, ?w')"
      by (simp add: call_def split_def)
    with log show ?thesis by simp
  next
    case (Inr credentials)
    show ?thesis
    proof (cases "hashable account")
      case False
      with Inr have "credentials_loop E (account # rest) credentials_list w = (Inl TypeError, ?w')"
        by (simp add: call_def split_def)
      with log show ?thesis by simp
    next
      case True
      with Inr have step: "credentials_loop E (account # rest) credentials_list w =
          credentials_loop E rest (dict_set account credentials credentials_list) ?w'"
        by (simp add: call_def split_def)
      obtain cs where
        cs: "calls (snd (credentials_loop E rest (dict_set account credentials credentials_list) ?w'))
               = calls ?w' @ cs" and
        raised: "(\<exists>req e. (req, Inl e) \<in> set cs) \<longrightarrow>
           (\<exists>e'. fst (credentials_loop E rest (dict_set account credentials credentials_list) ?w')
                    = Inl e')"
        using Cons.IH [of "dict_set account credentials credentials_list" ?w'] by blast
      have "calls (snd (credentials_loop E (account # rest) credentials_list w)) =
              calls w @ ((?req, ?r) # cs)"
        using step cs log by simp
      moreover have "(\<exists>req e. (req, Inl e) \<in> set ((?req, ?r) # cs)) \<longrightarrow>
           (\<exists>e'. fst (credentials_loop E (account # rest) credentials_list w) = Inl e')"
        using step raised Inr by auto
      ultimately show ?thesis by blast
    qed
  qed
qed

lemma accounts_raised:
  assumes "(req, Inl e) \<in> set (new_calls w (snd (get_accounts_and_credentials E w)))"
  shows "fst (get_accounts_and_credentials E w) = (PList [], PDict [])"
proof (cases "fst (respond E (ext w) ListAccounts)")
  case (Inl e0)
  then show ?thesis
    by (simp add: get_accounts_and_credentials_def call_def split_def)
next
  case (Inr accounts_list)
  let ?w' = "snd (call E ListAccounts w)"
  have log: "calls ?w' = calls w @ [(ListAccounts, Inr accounts_list)]"
    using Inr by (simp add: call_simps)
  show ?thesis
  proof (cases "py_iter accounts_list")
    case (Inl e1)
    with Inr show ?thesis
      by (simp add: get_accounts_and_credentials_def call_def split_def)
  next
    case iter: (Inr accounts)
    obtain cs where
      cs: "calls (snd (credentials_loop E accounts [] ?w')) = calls ?w' @ cs" and
      raised: "(\<exists>req e. (req, Inl e) \<in> set cs) \<longrightarrow>
         (\<exists>e'. fst (credentials_loop E accounts [] ?w') = Inl e')"
      using credentials_loop_trace [of E accounts "[]" ?w'] by blast
    have "calls (snd (get_accounts_and_credentials E w)) =
            calls (snd (credentials_loop E accounts [] ?w'))"
      using Inr iter
      by (simp add: get_accounts_and_credentials_def call_def split_def st_show_def
               split: sum.splits)
    then have "new_calls w (snd (get_accounts_and_credentials E w)) =
                 (ListAccounts, Inr accounts_list) # cs"
      using cs log by (simp add: new_calls_def)
    with assms have "(req, Inl e) \<in> set cs" by auto
    with raised obtain e' where "fst (credentials_loop E accounts [] ?w') = Inl e'" by blast
    with Inr iter show ?thesis
      by (simp add: get_accounts_and_credentials_def call_def split_def)
  qed
qed

lemma balances_raised:
  assumes "(req, Inl e) \<in> set (new_calls w (snd (get_balances E w)))"
  shows "fst (get_balances E w) = PList []"
  using assms
  by (auto simp: get_balances_def new_calls_def call_def split_def st_show_def
           split: option.splits sum.splits if_splits)

text \<open>
  C3, as the code has it. When a backend call of \<^verbatim>\<open>get_accounts_and_credentials\<close>
  raised, it returns \<^verbatim>\<open>([], {})\<close>; when the call of \<^verbatim>\<open>get_balances\<close> raised, it
  returns \<^verbatim>\<open>[]\<close>. In \<^verbatim>\<open>get_market_data\<close> a candles call that raised gives the empty
  list of candles and a price call that raised gives the empty dict of prices, each on
  its own: the result is \<^verbatim>\<open>([], {})\<close> when both calls raised.
\<close>

theorem fallback_on_failure:
  "((\<exists>req e. (req, Inl e) \<in> set (new_calls w (snd (get_accounts_and_credentials E w)))) \<longrightarrow>
      fst (get_accounts_and_credentials E w) = (PList [], PDict [])) \<and>
   ((\<exists>req e. (req, Inl e) \<in> set (new_calls w (snd (get_balances E w)))) \<longrightarrow>
      fst (get_balances E w) = PList []) \<and>
   ((\<exists>c t i m e. (GetCandles c t i m, Inl e)
        \<in> set (new_calls w (snd (get_market_data E connector trading_pair interval max_records
                                  candles_connector w)))) \<longrightarrow>
      fst (fst (get_market_data E connector trading_pair interval max_records
                  candles_connector w)) = PList []) \<and>
   ((\<exists>c ts e. (GetPrices c ts, Inl e)
        \<in> set (new_calls w (snd (get_market_data E connector trading_pair interval max_records
                                  candles_connector w)))) \<longrightarrow>
      snd (fst (get_market_data E connector trading_pair interval max_records
                  candles_connector w)) = PDict [])"
proof -
  let ?R = "get_market_data E connector trading_pair interval max_records candles_connector w"
  obtain rc rp where
    t: "new_calls w (snd ?R) =
          [(GetCandles (candles_conn connector candles_connector) trading_pair interval max_records, rc),
           (GetPrices connector [trading_pair], rp)]" and
    c: "fst (fst ?R) = (case rc of Inl e \<Rightarrow> PList [] | Inr r \<Rightarrow> spec_normalized r)" and
    p: "snd (fst ?R) = (case rp of Inl e \<Rightarrow> PDict [] | Inr r \<Rightarrow> prices_of_response r)"
    using market_data_trace [of w E connector trading_pair interval max_records candles_connector]
    by blast
  have candles: "(\<exists>c t i m e. (GetCandles c t i m, Inl e) \<in> set (new_calls w (snd ?R))) \<longrightarrow>
      fst (fst ?R) = PList []"
    using t c by auto
  have prices: "(\<exists>c ts e. (GetPrices c ts, Inl e) \<in> set (new_calls w (snd ?R))) \<longrightarrow>
      snd (fst ?R) = PDict []"
    using t p by auto
  show ?thesis
    using accounts_raised [of _ _ w E] balances_raised [of _ _ w E] candles prices by blast
qed

theorem fallback_on_failure_witness:
  "fst (get_accounts_and_credentials (fixed_env (Inl (Failure ''down'')))
          (fresh_world :: (unit, unit) world)) = (PList [], PDict []) \<and>
   fst (get_balances (fixed_env (Inl (Failure ''down'')))
          ((fresh_world :: (unit, unit) world)
             \<lparr>session := fresh_session\<lparr>selected_account := Some ''master''\<rparr>\<rparr>)) = PList [] \<and>
   fst (get_market_data (fixed_env (Inl (Failure ''down''))) ''binance'' ''BTC-USDT'' ''1m'' 100 None
          (fresh_world :: (unit, unit) world)) = (PList [], PDict [])"
proof -
  let ?E = "fixed_env (Inl (Failure ''down''))"
  let ?w = "fresh_world :: (unit, unit) world"
  let ?w1 = "?w\<lparr>session := fresh_session\<lparr>selected_account := Some ''master''\<rparr>\<rparr>"
  have a: "(ListAccounts, Inl (Failure ''down''))
             \<in> set (new_calls ?w (snd (get_accounts_and_credentials ?E ?w)))"
    by (simp add: get_accounts_and_credentials_def call_def new_calls_def fixed_env_def
          fresh_world_def st_show_def)
  have b: "(GetState [''master''], Inl (Failure ''down''))
             \<in> set (new_calls ?w1 (snd (get_balances ?E ?w1)))"
    by (simp add: get_balances_def call_def new_calls_def fixed_env_def
          fresh_world_def fresh_session_def st_show_def)
  have c: "(GetCandles ''binance'' ''BTC-USDT'' ''1m'' 100, Inl (Failure ''down''))
             \<in> set (new_calls ?w (snd (get_market_data ?E ''binance'' ''BTC-USDT'' ''1m'' 100 None ?w)))"
    by (simp add: get_market_data_def fetch_candles_def fetch_prices_def call_def clock_def
          new_calls_def fixed_env_def fresh_world_def st_show_def candles_conn_def)
  have d: "(GetPrices ''binance'' [''BTC-USDT''], Inl (Failure ''down''))
             \<in> set (new_calls ?w (snd (get_market_data ?E ''binance'' ''BTC-USDT'' ''1m'' 100 None ?w)))"
    by (simp add: get_market_data_def fetch_candles_def fetch_prices_def call_def clock_def
          new_calls_def fixed_env_def fresh_world_def st_show_def candles_conn_def)
  from a have "fst (get_accounts_and_credentials ?E ?w) = (PList [], PDict [])"
    using fallback_on_failure [of ?w ?E] by blast
  moreover from b have "fst (get_balances ?E ?w1) = PList []"
    using fallback_on_failure [of ?w1 ?E] by blast
  moreover from c d have
    "fst (get_market_data ?E ''binance'' ''BTC-USDT'' ''1m'' 100 None ?w) = (PList [], PDict [])"
    using fallback_on_failure [of ?w ?E "''binance''" "''BTC-USDT''" "''1m''" 100 None]
    by (metis prod.collapse)
  ultimately show ?thesis by blast
qed

text \<open>
  C3, as stated, fails for \<^verbatim>\<open>get_market_data\<close>: the candles call raises, and the
  result is not \<^verbatim>\<open>([], {})\<close>, since the prices are still fetched.
\<close>

theorem market_data_fallback_counterexample:
  "fst (respond candles_down_env () (GetCandles ''binance'' ''BTC-USDT'' ''1m'' 100))
     = Inl (Failure ''timeout'') \<and>
   fst (get_market_data candles_down_env ''binance'' ''BTC-USDT'' ''1m'' 100 None
          (fresh_world :: (unit, unit) world))
     = (PList [], PDict [(PStr ''BTC-USDT'', PInt 50000)]) \<and>
   fst (get_market_data candles_down_env ''binance'' ''BTC-USDT'' ''1m'' 100 None
          (fresh_world :: (unit, unit) world))
     \<noteq> (PList [], PDict [])"
  by (simp add: get_market_data_def fetch_candles_def fetch_prices_def call_def clock_def
        candles_down_env_def fresh_world_def bare_prices_def key_eq_def dict_get_def
        candles_conn_def)

subsection \<open>Balances\<close>

lemma balance_record_wf:
  "is_token_info token_info \<Longrightarrow>
   balance_record exchange token_info = Inr (spec_balance exchange token_info)"
  by (cases token_info) (auto simp: balance_record_def spec_balance_def)

lemma tokens_loop_wf:
  "list_all is_token_info ts \<Longrightarrow>
   tokens_loop exchange ts balances = Inr (balances @ map (spec_balance exchange) ts)"
  by (induction ts arbitrary: balances) (simp_all add: balance_record_wf)

lemma exchanges_loop_wf:
  "list_all wf_exchange exchanges \<Longrightarrow>
   exchanges_loop exchanges balances = Inr (balances @ spec_balances exchanges)"
proof (induction exchanges arbitrary: balances)
  case Nil
  show ?case by (simp add: spec_balances_def)
next
  case (Cons x exchanges)
  obtain exchange tokens where x: "x = (exchange, tokens)" by (cases x)
  from Cons.prems x obtain ts where
    ts: "tokens = PList ts" and all: "list_all is_token_info ts"
    by (cases tokens) (auto simp: wf_exchange_def)
  from Cons.prems have rest: "list_all wf_exchange exchanges" by simp
  have "exchanges_loop (x # exchanges) balances =
          exchanges_loop exchanges (balances @ map (spec_balance exchange) ts)"
    using x ts all by (simp add: tokens_loop_wf)
  also have "\<dots> = Inr ((balances @ map (spec_balance exchange) ts) @ spec_balances exchanges)"
    using rest by (rule Cons.IH)
  also have "\<dots> = Inr (balances @ spec_balances (x # exchanges))"
    using x ts by (simp add: spec_balances_def)
  finally show ?case .
qed

text \<open>
  C5. With no account selected \<^verbatim>\<open>get_balances\<close> returns the empty list without calling
  the backend. With an account selected and a portfolio state returned, it returns the
  empty list when the account is not a key of the state, and otherwise one balance record
  per exchange and token under the account, in order, each with the exchange and with
  \<^verbatim>\<open>token\<close>, \<^verbatim>\<open>total\<close>, \<^verbatim>\<open>available\<close>, \<^verbatim>\<open>price\<close> and \<^verbatim>\<open>value\<close> copied from the
  token record's \<^verbatim>\<open>token\<close>, \<^verbatim>\<open>units\<close>, \<^verbatim>\<open>available_units\<close>, \<^verbatim>\<open>price\<close> and \<^verbatim>\<open>value\<close>.
\<close>

theorem balances_from_portfolio:
  "(\<not> truthy (opt_str (selected_account (session w))) \<longrightarrow>
      fst (get_balances E w) = PList [] \<and> new_calls w (snd (get_balances E w)) = []) \<and>
   (selected_account (session w) = Some account \<and> account \<noteq> [] \<and>
    respond E (ext w) (GetState [account]) = (Inr (PDict portfolio_state), b) \<longrightarrow>
      (lookup portfolio_state (PStr account) = None \<longrightarrow> fst (get_balances E w) = PList []) \<and>
      (lookup portfolio_state (PStr account) = Some (PDict exchanges) \<and>
       list_all wf_exchange exchanges \<longrightarrow>
         fst (get_balances E w) = PList (spec_balances exchanges) \<and>
         length (spec_balances exchanges) =
           sum_list (map (\<lambda>x. length (exchange_tokens (snd x))) exchanges)))"
proof (intro conjI impI)
  assume "\<not> truthy (opt_str (selected_account (session w)))"
  then have none: "selected_account (session w) = None \<or> selected_account (session w) = Some []"
    by (cases "selected_account (session w)") auto
  then show "fst (get_balances E w) = PList []"
    by (auto simp: get_balances_def)
  from none show "new_calls w (snd (get_balances E w)) = []"
    by (auto simp: get_balances_def new_calls_def)
next
  assume a: "selected_account (session w) = Some account \<and> account \<noteq> [] \<and>
    respond E (ext w) (GetState [account]) = (Inr (PDict portfolio_state), b)"
  assume "lookup portfolio_state (PStr account) = None"
  with a show "fst (get_balances E w) = PList []"
    by (simp add: get_balances_def call_def extract_balances_def)
next
  assume a: "selected_account (session w) = Some account \<and> account \<noteq> [] \<and>
    respond E (ext w) (GetState [account]) = (Inr (PDict portfolio_state), b)"
  assume e: "lookup portfolio_state (PStr account) = Some (PDict exchanges) \<and>
       list_all wf_exchange exchanges"
  then have "extract_balances (PDict portfolio_state) account = Inr (spec_balances exchanges)"
    by (simp add: extract_balances_def exchanges_loop_wf)
  with a show "fst (get_balances E w) = PList (spec_balances exchanges)"
    by (simp add: get_balances_def call_def)
next
  show "length (spec_balances exchanges) =
           sum_list (map (\<lambda>x. length (exchange_tokens (snd x))) exchanges)"
    by (simp add: spec_balances_def length_concat comp_def)
qed

theorem balances_from_portfolio_witness:
  "fst (get_balances (fixed_env (Inr ok_envelope)) (fresh_world :: (unit, unit) world)) = PList [] \<and>
   fst (get_balances (fixed_env (Inr (PDict []))) (master_world :: (unit, unit) world)) = PList [] \<and>
   fst (get_balances (fixed_env (Inr (PDict sample_portfolio))) (master_world :: (unit, unit) world)) =
     PList [spec_balance (PStr ''binance'') token_btc, spec_balance (PStr ''binance'') token_usdt,
            spec_balance (PStr ''kucoin'') token_usdt] \<and>
   spec_balance (PStr ''binance'') token_btc =
     PDict [(PStr ''exchange'', PStr ''binance''), (PStr ''token'', PStr ''BTC''),
            (PStr ''total'', PFloat (1 / 2)), (PStr ''available'', PFloat (1 / 4)),
            (PStr ''price'', PInt 50000), (PStr ''value'', PInt 25000)]"
proof -
  have 1: "fst (get_balances (fixed_env (Inr ok_envelope)) (fresh_world :: (unit, unit) world)) = PList []"
    using balances_from_portfolio
      [where w = "fresh_world :: (unit, unit) world" and E = "fixed_env (Inr ok_envelope)"]
    by (simp add: fresh_world_def fresh_session_def)
  have 2: "fst (get_balances (fixed_env (Inr (PDict []))) (master_world :: (unit, unit) world)) = PList []"
    using balances_from_portfolio
      [where w = "master_world :: (unit, unit) world" and E = "fixed_env (Inr (PDict []))"
         and account = "''master''" and portfolio_state = "[]" and b = "()"]
    by (simp add: master_world_def fresh_world_def fresh_session_def fixed_env_def)
  have 3: "fst (get_balances (fixed_env (Inr (PDict sample_portfolio))) (master_world :: (unit, unit) world)) =
     PList [spec_balance (PStr ''binance'') token_btc, spec_balance (PStr ''binance'') token_usdt,
            spec_balance (PStr ''kucoin'') token_usdt]"
    using balances_from_portfolio
      [where w = "master_world :: (unit, unit) world"
         and E = "fixed_env (Inr (PDict sample_portfolio))"
         and account = "''master''" and portfolio_state = sample_portfolio and b = "()"
         and exchanges = "[(PStr ''binance'', PList [token_btc, token_usdt]),
                           (PStr ''kucoin'', PList [token_usdt])]"]
    by (simp add: master_world_def fresh_world_def fresh_session_def fixed_env_def
          sample_portfolio_def key_eq_def wf_exchange_def token_btc_def token_usdt_def
          spec_balances_def)
  have 4: "spec_balance (PStr ''binance'') token_btc =
     PDict [(PStr ''exchange'', PStr ''binance''), (PStr ''token'', PStr ''BTC''),
            (PStr ''total'', PFloat (1 / 2)), (PStr ''available'', PFloat (1 / 4)),
            (PStr ''price'', PInt 50000), (PStr ''value'', PInt 25000)]"
    by (simp add: spec_balance_def token_btc_def key_eq_def)
  from 1 2 3 4 show ?thesis by blast
qed

subsection \<open>Rendering\<close>

lemma cancel_order_frame:
  "objects (snd (cancel_order E account_name connector_name order_id w)) = objects w"
  "\<exists>r. calls (snd (cancel_order E account_name connector_name order_id w)) =
         calls w @ [(CancelOrder account_name connector_name order_id, r)]"
  by (auto simp: cancel_order_def call_def split_def st_show_def split: sum.splits pyval.splits)

text \<open>The loop over the selected rows makes one cancel request per row and nothing else.\<close>

lemma cancel_selected_frame:
  "objects (cancel_selected E rows w) = objects w \<and>
   (\<exists>cs. calls (cancel_selected E rows w) = calls w @ cs \<and> map fst cs = map cancel_request rows)"
proof (induction rows arbitrary: w)
  case Nil
  show ?case by simp
next
  case (Cons order rows)
  let ?w' = "snd (cancel_order E (dict_get order ''account_name'' (PStr []))
                    (dict_get order ''connector_name'' (PStr []))
                    (dict_get order ''client_order_id'' (PStr [])) w)"
  obtain r where r: "calls ?w' = calls w @ [(cancel_request order, r)]"
    using cancel_order_frame(2) [of E _ _ _ w] unfolding cancel_request_def by blast
  obtain cs where cs: "calls (cancel_selected E rows ?w') = calls ?w' @ cs"
    and m: "map fst cs = map cancel_request rows"
    using Cons.IH [of ?w'] by blast
  have "objects (cancel_selected E (order # rows) w) = objects w"
    using Cons.IH [of ?w'] by (simp add: cancel_order_frame(1))
  moreover have "calls (cancel_selected E (order # rows) w) = calls w @ ((cancel_request order, r) # cs)"
    using r cs by simp
  moreover have "map fst ((cancel_request order, r) # cs) = map cancel_request (order # rows)"
    using m by simp
  ultimately show ?case by blast
qed

lemma cancel_requests_only: "list_all is_cancel (map cancel_request rows)"
  by (induction rows) (simp_all add: cancel_request_def)

lemma get_balances_frame:
  "objects (snd (get_balances E w)) = objects w"
  "list_all is_get_state (map fst (new_calls w (snd (get_balances E w))))"
  by (auto simp: get_balances_def call_def split_def st_show_def new_calls_def
           split: option.splits sum.splits)

lemma render_orders_frame:
  "objects (snd (render_orders_table E P U a w)) = objects w \<and>
   (\<exists>cs. calls (snd (render_orders_table E P U a w)) = calls w @ cs \<and>
         list_all is_cancel (map fst cs))"
proof -
  have loop: "\<And>rows w'. objects w' = objects w \<Longrightarrow> calls w' = calls w \<Longrightarrow>
      objects (cancel_selected E rows w') = objects w \<and>
      (\<exists>cs. calls (cancel_selected E rows w') = calls w @ cs \<and> list_all is_cancel (map fst cs))"
    using cancel_selected_frame cancel_requests_only by metis
  show ?thesis
    unfolding render_orders_table_def Let_def
    by (auto simp: st_show_simps intro!: loop split: sum.splits)
qed

text \<open>
  C6. No rendering function changes the record list it is given, nor any other object.
  \<^verbatim>\<open>render_positions_table\<close> and \<^verbatim>\<open>render_order_history_table\<close> make no backend call;
  the only calls of \<^verbatim>\<open>render_orders_table\<close> are cancel requests;
  \<^verbatim>\<open>render_balances_table\<close>, which takes no list but fetches the balances itself, only
  reads the portfolio state.
\<close>

theorem rendering_leaves_records:
  "objects (snd (render_positions_table P a w)) = objects w \<and>
   new_calls w (snd (render_positions_table P a w)) = [] \<and>
   objects (snd (render_order_history_table P a w)) = objects w \<and>
   new_calls w (snd (render_order_history_table P a w)) = [] \<and>
   objects (snd (render_orders_table E P U a w)) = objects w \<and>
   list_all is_cancel (map fst (new_calls w (snd (render_orders_table E P U a w)))) \<and>
   objects (snd (render_balances_table E P w)) = objects w \<and>
   list_all is_get_state (map fst (new_calls w (snd (render_balances_table E P w))))"
proof (intro conjI)
  show "objects (snd (render_positions_table P a w)) = objects w"
    by (simp add: render_positions_table_def Let_def st_show_simps split: sum.splits)
  show "new_calls w (snd (render_positions_table P a w)) = []"
    by (simp add: render_positions_table_def Let_def st_show_simps new_calls_def split: sum.splits)
  show "objects (snd (render_order_history_table P a w)) = objects w"
    by (simp add: render_order_history_table_def Let_def st_show_simps split: sum.splits)
  show "new_calls w (snd (render_order_history_table P a w)) = []"
    by (simp add: render_order_history_table_def Let_def st_show_simps new_calls_def
             split: sum.splits)
  show "objects (snd (render_orders_table E P U a w)) = objects w"
    using render_orders_frame [of E P U a w] by blast
  show "list_all is_cancel (map fst (new_calls w (snd (render_orders_table E P U a w))))"
    using render_orders_frame [of E P U a w] by (auto simp: new_calls_def)
  show "objects (snd (render_balances_table E P w)) = objects w"
    by (simp add: render_balances_table_def Let_def split_def st_show_simps get_balances_frame(1)
             split: sum.splits)
  have "calls (snd (render_balances_table E P w)) = calls (snd (get_balances E w))"
    by (simp add: render_balances_table_def Let_def split_def st_show_simps split: sum.splits)
  then show "list_all is_get_state (map fst (new_calls w (snd (render_balances_table E P w))))"
    using get_balances_frame(2) [of w E] by (simp add: new_calls_def)
qed

theorem rendering_leaves_records_witness:
  "objects (snd (render_orders_table (fixed_env (Inr ok_envelope)) list_frames pressing_user 0
                   orders_world)) 0 = one_order \<and>
   map fst (new_calls orders_world
              (snd (render_orders_table (fixed_env (Inr ok_envelope)) list_frames pressing_user 0
                      orders_world)))
     = [CancelOrder (PStr []) (PStr []) (PStr ''x-1'')]"
  using rendering_leaves_records
    [where E = "fixed_env (Inr ok_envelope)" and P = list_frames and U = pressing_user
       and a = 0 and w = orders_world]
  by (simp add: render_orders_table_def cancel_order_def call_def st_show_def new_calls_def
        fixed_env_def list_frames_def pressing_user_def orders_world_def fresh_world_def
        one_order_def ok_envelope_def key_eq_def dict_get_def)

subsection \<open>Placing an order from the page\<close>

lemma place_order_calls:
  "\<exists>r. calls (snd (place_order E order_data w)) = calls w @ [(PlaceOrder order_data, r)]"
  by (auto simp: place_order_def call_def split_def st_show_def split: sum.splits pyval.splits)

text \<open>
  C7. The trade section calls the backend only when an account and a connector are
  selected, the button is pressed and the amount is greater than zero; nothing else about
  the order is tested. The one call it then makes is \<^verbatim>\<open>place_order\<close> with the account,
  the connector, the trading pair, the order type, the side and the amount as they are,
  and with the price as it is for a limit order whose price is not zero.
\<close>

theorem order_forwarded_unmodified:
  "map fst (new_calls w (execute_trade_section E order_type side amount price_input clicked w)) =
     (if truthy (opt_str (selected_account (session w))) \<and>
         truthy (opt_str (selected_connector (session w))) \<and> clicked \<and> 0 < amount
      then [PlaceOrder
              ([(''account_name'', opt_str (selected_account (session w))),
                (''connector_name'', opt_str (selected_connector (session w))),
                (''trading_pair'', PStr (selected_market_trading_pair (session w))),
                (''order_type'', PStr order_type),
                (''trade_type'', PStr side),
                (''amount'', PFloat amount)] @
               (if order_type = ''limit'' \<and> price_input \<noteq> 0
                then [(''price'', PFloat price_input)] else []))]
      else [])"
proof -
  let ?order_data = "[(''account_name'', opt_str (selected_account (session w))),
                (''connector_name'', opt_str (selected_connector (session w))),
                (''trading_pair'', PStr (selected_market_trading_pair (session w))),
                (''order_type'', PStr order_type),
                (''trade_type'', PStr side),
                (''amount'', PFloat amount)] @
               (if order_type = ''limit'' \<and> price_input \<noteq> 0
                then [(''price'', PFloat price_input)] else [])"
  let ?price = "if order_type = ''limit'' then Some price_input else None"
  have button: "0 < amount \<Longrightarrow>
      place_order_button E order_type side amount ?price w = snd (place_order E ?order_data w)"
    by (simp add: place_order_button_def Let_def)
  have idle: "\<not> 0 < amount \<Longrightarrow>
      calls (place_order_button E order_type side amount ?price w) = calls w"
    by (simp add: place_order_button_def st_show_simps)
  obtain r where r: "calls (snd (place_order E ?order_data w)) = calls w @ [(PlaceOrder ?order_data, r)]"
    using place_order_calls by blast
  show ?thesis
  proof (cases "truthy (opt_str (selected_account (session w))) \<and>
         truthy (opt_str (selected_connector (session w))) \<and> clicked \<and> 0 < amount")
    case True
    then have "calls (execute_trade_section E order_type side amount price_input clicked w) =
                 calls w @ [(PlaceOrder ?order_data, r)]"
      using button r by (simp add: execute_trade_section_def Let_def st_show_simps)
    then have "new_calls w (execute_trade_section E order_type side amount price_input clicked w) =
                 [(PlaceOrder ?order_data, r)]"
      by (rule new_calls_append)
    with True show ?thesis by simp
  next
    case False
    then have "calls (execute_trade_section E order_type side amount price_input clicked w) = calls w"
      using idle by (auto simp: execute_trade_section_def Let_def st_show_simps)
    then have "new_calls w (execute_trade_section E order_type side amount price_input clicked w) = []"
      by (simp add: new_calls_def)
    with False show ?thesis by simp
  qed
qed

theorem order_forwarded_unmodified_witness:
  "map fst (new_calls (trading_world :: (unit, unit) world)
              (execute_trade_section (fixed_env (Inr ok_envelope)) ''limit'' ''buy'' (1 / 1000) 50000 True
                 trading_world)) =
     [PlaceOrder [(''account_name'', PStr ''master''), (''connector_name'', PStr ''binance''),
                  (''trading_pair'', PStr ''BTC-USDT''), (''order_type'', PStr ''limit''),
                  (''trade_type'', PStr ''buy''), (''amount'', PFloat (1 / 1000)),
                  (''price'', PFloat 50000)]] \<and>
   map fst (new_calls (trading_world :: (unit, unit) world)
              (execute_trade_section (fixed_env (Inr ok_envelope)) ''market'' ''sell'' 0 0 True
                 trading_world)) = []"
  using order_forwarded_unmodified
    [where w = "trading_world :: (unit, unit) world" and E = "fixed_env (Inr ok_envelope)"
       and order_type = "''limit''" and side = "''buy''" and amount = "1 / 1000"
       and price_input = 50000 and clicked = True]
    order_forwarded_unmodified
    [where w = "trading_world :: (unit, unit) world" and E = "fixed_env (Inr ok_envelope)"
       and order_type = "''market''" and side = "''sell''" and amount = 0
       and price_input = 0 and clicked = True]
  by (simp add: trading_world_def fresh_world_def fresh_session_def)

end
